theory Spec2Isabelle
  imports Main
begin

section \<open>Strings\<close>

text \<open>
  A JavaScript string is a sequence of UTF-16 code units; \<open>length\<close>, \<open>includes\<close>,
  \<open>charAt\<close>, \<open>slice\<close> and the regular expressions of the source (none has the \<open>u\<close> flag)
  all count and compare code units. A string is therefore a list of code-unit values.
  The Russian literals of the source are written as their code units (the Cyrillic
  letters \<open>U+0410\<close> to \<open>U+044F\<close> are 1040 to 1103, \<open>U+0401\<close> and \<open>U+0451\<close> are 1025 and 1105),
  with a transliteration beside each.
\<close>

type_synonym jsstring = "nat list"

text \<open>
  \<open>toLowerCase\<close> and \<open>toUpperCase\<close>, one code unit at a time. The table covers Basic
  Latin and the Cyrillic block \<open>U+0400\<close> to \<open>U+045F\<close>, the alphabets of every literal
  and character class of the source; the letters of other scripts are left as they
  are here, which is not what the JavaScript runtime does with them (it maps the small
  letters \<open>U+1C80\<close> to \<open>U+1C86\<close> to Cyrillic capitals, for instance, and
  lower-cases \<open>U+0130\<close> to two code units). The case-insensitive comparisons of the
  matcher below inherit this limit. No general statement of this theory unfolds these
  tables: they are evaluated on the example inputs only, all of them Basic Latin or
  Russian.
\<close>

definition lowerUnit :: "nat \<Rightarrow> nat" where
  "lowerUnit c =
     (if 65 \<le> c \<and> c \<le> 90 then c + 32
      else if 1040 \<le> c \<and> c \<le> 1071 then c + 32
      else if 1024 \<le> c \<and> c \<le> 1039 then c + 80
      else c)"

definition upperUnit :: "nat \<Rightarrow> nat" where
  "upperUnit c =
     (if 97 \<le> c \<and> c \<le> 122 then c - 32
      else if 1072 \<le> c \<and> c \<le> 1103 then c - 32
      else if 1104 \<le> c \<and> c \<le> 1119 then c - 80
      else c)"

definition toLowerCase :: "jsstring \<Rightarrow> jsstring" where
  "toLowerCase s = map lowerUnit s"

definition toUpperCase :: "jsstring \<Rightarrow> jsstring" where
  "toUpperCase s = map upperUnit s"

fun startsWith :: "jsstring \<Rightarrow> jsstring \<Rightarrow> bool" where
  "startsWith s [] = True"
| "startsWith [] (k # ks) = False"
| "startsWith (x # xs) (k # ks) = (x = k \<and> startsWith xs ks)"

text \<open>
  \<open>String.prototype.includes\<close> (\<open>str_includes\<close> here, the name being a keyword of the
  prover): the second string occurs somewhere in the first.
\<close>

fun str_includes :: "jsstring \<Rightarrow> jsstring \<Rightarrow> bool" where
  "str_includes [] k = startsWith [] k"
| "str_includes (x # xs) k = (startsWith (x # xs) k \<or> str_includes xs k)"

section \<open>Regular expressions\<close>

text \<open>
  The regular expressions of the two extractors use literals, character classes,
  \<open>*\<close> and \<open>+\<close> on a class, \<open>?\<close>, alternation, capture groups and the anchors
  \<open>^\<close> and \<open>$\<close>. A class is a list of inclusive ranges of code units, negated or not.
  The matcher is the backtracking matcher of the language written as a list of
  successes: every way of matching from a position, in the order in which backtracking
  would try them (a greedy quantifier tries the longest repetition first), so the head
  of the list is the match that \<open>exec\<close> reports. A matcher state is the flag
  "nothing consumed since the start of the input", the rest of the input and the
  captures made so far (most recent first).
\<close>

type_synonym charset = "bool \<times> (nat \<times> nat) list"

datatype regex =
    Eps
  | Chr nat
  | Cls charset
  | Star charset
  | Opt regex
  | Seq regex regex
  | Alt regex regex
  | Grp nat regex
  | Bol
  | Eol

type_synonym captures = "(nat \<times> jsstring) list"
type_synonym mstate = "bool \<times> jsstring \<times> captures"

fun inRanges :: "(nat \<times> nat) list \<Rightarrow> nat \<Rightarrow> bool" where
  "inRanges [] c = False"
| "inRanges ((lo, hi) # rs) c = ((lo \<le> c \<and> c \<le> hi) \<or> inRanges rs c)"

text \<open>
  Membership in a class. With the \<open>i\<close> flag a code unit belongs to the class when some
  member has the same canonical (upper-case) form; the negation is applied afterwards.
\<close>

definition inSet :: "bool \<Rightarrow> charset \<Rightarrow> nat \<Rightarrow> bool" where
  "inSet ignoreCase k c =
     (case k of (negated, rs) \<Rightarrow>
        negated \<noteq> (inRanges rs c
                    \<or> (ignoreCase \<and> (inRanges rs (upperUnit c) \<or> inRanges rs (lowerUnit c)))))"

definition sameUnit :: "bool \<Rightarrow> nat \<Rightarrow> nat \<Rightarrow> bool" where
  "sameUnit ignoreCase x c = (if ignoreCase then upperUnit x = upperUnit c else x = c)"

text \<open>The rests of the input after a greedy repetition of a class, longest first.\<close>

fun starRests :: "(nat \<Rightarrow> bool) \<Rightarrow> jsstring \<Rightarrow> jsstring list" where
  "starRests p [] = [[]]"
| "starRests p (x # xs) = (if p x then starRests p xs @ [x # xs] else [x # xs])"

fun rmatch :: "bool \<Rightarrow> regex \<Rightarrow> mstate \<Rightarrow> mstate list" where
  "rmatch ic Eps st = [st]"
| "rmatch ic (Chr c) (b, s, cs) =
     (case s of [] \<Rightarrow> [] | x # xs \<Rightarrow> if sameUnit ic x c then [(False, xs, cs)] else [])"
| "rmatch ic (Cls k) (b, s, cs) =
     (case s of [] \<Rightarrow> [] | x # xs \<Rightarrow> if inSet ic k x then [(False, xs, cs)] else [])"
| "rmatch ic (Star k) (b, s, cs) =
     map (\<lambda>r. (b \<and> length r = length s, r, cs)) (starRests (inSet ic k) s)"
| "rmatch ic (Opt r) st = rmatch ic r st @ [st]"
| "rmatch ic (Seq r1 r2) st = concat (map (rmatch ic r2) (rmatch ic r1 st))"
| "rmatch ic (Alt r1 r2) st = rmatch ic r1 st @ rmatch ic r2 st"
| "rmatch ic (Grp n r) (b, s, cs) =
     map (\<lambda>(b', s', cs'). (b', s', (n, take (length s - length s') s) # cs'))
         (rmatch ic r (b, s, cs))"
| "rmatch ic Bol (b, s, cs) = (if b then [(b, s, cs)] else [])"
| "rmatch ic Eol (b, s, cs) = (if s = [] then [(b, s, cs)] else [])"

text \<open>
  \<open>String.prototype.match\<close> with a regular expression that has no \<open>g\<close> flag: the
  leftmost match, tried from every start position in turn; the result is the captures
  of that match, or nothing.
\<close>

fun execFrom :: "bool \<Rightarrow> regex \<Rightarrow> bool \<Rightarrow> jsstring \<Rightarrow> captures option" where
  "execFrom ic r b [] =
     (case rmatch ic r (b, [], []) of [] \<Rightarrow> None | (b', s', cs) # ms \<Rightarrow> Some cs)"
| "execFrom ic r b (x # xs) =
     (case rmatch ic r (b, x # xs, []) of
        [] \<Rightarrow> execFrom ic r False xs
      | (b', s', cs) # ms \<Rightarrow> Some cs)"

definition str_match :: "jsstring \<Rightarrow> bool \<times> regex \<Rightarrow> captures option" where
  "str_match s p = (case p of (ignoreCase, r) \<Rightarrow> execFrom ignoreCase r True s)"

text \<open>A literal string, and \<open>+\<close> on a class (one member, then \<open>*\<close>).\<close>

definition lit :: "jsstring \<Rightarrow> regex" where
  "lit s = foldr (\<lambda>c r. Seq (Chr c) r) s Eps"

definition Plus :: "charset \<Rightarrow> regex" where
  "Plus k = Seq (Cls k) (Star k)"

fun seqs :: "regex list \<Rightarrow> regex" where
  "seqs [] = Eps"
| "seqs (r # rs) = Seq r (seqs rs)"

text \<open>
  The classes \<open>\d\<close> and \<open>\s\<close> of the language, and the letter class
  \<open>[a-ya yo A-YA YO a-z A-Z]\<close> of the name patterns (Cyrillic small and capital letters
  with \<open>yo\<close>, then Basic Latin).
\<close>

definition digitRanges :: "(nat \<times> nat) list" where
  "digitRanges = [(48, 57)]"

definition spaceRanges :: "(nat \<times> nat) list" where
  "spaceRanges =
     [(9, 13), (32, 32), (160, 160), (5760, 5760), (8192, 8202), (8232, 8233), (8239, 8239),
      (8287, 8287), (12288, 12288), (65279, 65279)]"

definition letterRanges :: "(nat \<times> nat) list" where
  "letterRanges = [(1072, 1103), (1105, 1105), (1040, 1071), (1025, 1025), (97, 122), (65, 90)]"

text \<open>\<open>\d{1,2}\<close>: one digit and, greedily, a second one.\<close>

definition digits12 :: regex where
  "digits12 = Seq (Cls (False, digitRanges)) (Opt (Cls (False, digitRanges)))"

section \<open>Stages and the stage registry (session-state.ts)\<close>

datatype MPTStage =
    start_session
  | collect_context
  | clarify_request
  | explore_strategy
  | find_need
  | bodywork
  | metaphor
  | meta_position
  | integration
  | plan_actions
  | finish

definition MPT_STAGE_ORDER :: "MPTStage list" where
  "MPT_STAGE_ORDER =
     [start_session, collect_context, clarify_request, explore_strategy, find_need,
      bodywork, metaphor, meta_position, integration, plan_actions, finish]"

text \<open>
  \<open>StageConfig\<close>: of the six fields only \<open>name\<close> (here \<open>cfg_name\<close>) and \<open>minResponses\<close> are kept. The
  other four (\<open>russianName\<close>, \<open>goal\<close>, \<open>questions\<close>, \<open>transitionCriteria\<close>) are display
  text that only the prompt generator reads.
\<close>

record StageConfig =
  cfg_name :: string
  minResponses :: int

fun MPT_STAGE_CONFIG :: "MPTStage \<Rightarrow> StageConfig" where
  "MPT_STAGE_CONFIG start_session = \<lparr>cfg_name = ''start_session'', minResponses = 1\<rparr>"
| "MPT_STAGE_CONFIG collect_context = \<lparr>cfg_name = ''collect_context'', minResponses = 2\<rparr>"
| "MPT_STAGE_CONFIG clarify_request = \<lparr>cfg_name = ''clarify_request'', minResponses = 3\<rparr>"
| "MPT_STAGE_CONFIG explore_strategy = \<lparr>cfg_name = ''explore_strategy'', minResponses = 3\<rparr>"
| "MPT_STAGE_CONFIG find_need = \<lparr>cfg_name = ''find_need'', minResponses = 3\<rparr>"
| "MPT_STAGE_CONFIG bodywork = \<lparr>cfg_name = ''bodywork'', minResponses = 4\<rparr>"
| "MPT_STAGE_CONFIG metaphor = \<lparr>cfg_name = ''metaphor'', minResponses = 3\<rparr>"
| "MPT_STAGE_CONFIG meta_position = \<lparr>cfg_name = ''meta_position'', minResponses = 3\<rparr>"
| "MPT_STAGE_CONFIG integration = \<lparr>cfg_name = ''integration'', minResponses = 3\<rparr>"
| "MPT_STAGE_CONFIG plan_actions = \<lparr>cfg_name = ''plan_actions'', minResponses = 2\<rparr>"
| "MPT_STAGE_CONFIG finish = \<lparr>cfg_name = ''finish'', minResponses = 1\<rparr>"

section \<open>The session state\<close>

record RequestClarification =
  isPositive :: "bool option"
  hasAuthorship :: "bool option"
  isConcrete :: "bool option"
  isRealistic :: "bool option"
  motivationChecked :: "bool option"
  rc_clarifiedRequest :: "jsstring option"

record BodyworkData =
  location :: "jsstring option"
  size_of :: "jsstring option"
  shape :: "jsstring option"
  density :: "jsstring option"
  temperature :: "jsstring option"
  movement :: "jsstring option"
  impulse :: "jsstring option"

record MetaphorData =
  image :: "jsstring option"
  qualities :: "jsstring option"
  md_energyLevel :: "int option"

record MetaPositionData =
  viewOfSelf :: "jsstring option"
  viewOfLife :: "jsstring option"
  viewOfStrategy :: "jsstring option"
  insight :: "jsstring option"
  messageFromImage :: "jsstring option"

record IntegrationData =
  newFeeling :: "jsstring option"
  movementDone :: bool
  integratedState :: "jsstring option"

text \<open>
  \<open>TherapyContext\<close>. The field \<open>metaphor\<close> is \<open>ctx_metaphor\<close> here (the stage of that
  name is a constructor), and \<open>stageData\<close>, a \<open>Record<string, string>\<close>, is a list of
  key and value pairs.
\<close>

record TherapyContext =
  clientName :: "jsstring option"
  currentGoal :: "jsstring option"
  originalRequest :: "jsstring option"
  clarifiedRequest :: "jsstring option"
  currentStrategy :: "jsstring option"
  strategyIntention :: "jsstring option"
  deepNeed :: "jsstring option"
  bodyLocation :: "jsstring option"
  ctx_metaphor :: "jsstring option"
  energyLevel :: "int option"
  newActions :: "jsstring list"
  firstStep :: "jsstring option"
  homework :: "jsstring option"
  stageData :: "(jsstring \<times> jsstring) list"
  requestClarification :: RequestClarification
  bodyworkData :: BodyworkData
  metaphorData :: MetaphorData
  metaPositionData :: MetaPositionData
  integrationData :: IntegrationData

datatype RequestType =
    fear_anxiety
  | procrastination
  | relationships
  | self_worth
  | burnout
  | lost_desires
  | role_conflict
  | resistance
  | trauma
  | identity
  | psychosomatic
  | general

text \<open>
  \<open>SessionState\<close>. The field \<open>context\<close> is \<open>ctx\<close> here (the source's name is a
  keyword of the prover). The two counters are JavaScript numbers that only ever hold small
  integers (they start at 0 and are incremented or reset), so they are integers here.
\<close>

record SessionState =
  currentStage :: MPTStage
  stageResponseCount :: int
  currentQuestionIndex :: int
  stageHistory :: "MPTStage list"
  ctx :: TherapyContext
  requestType :: "RequestType option"
  importanceRating :: "int option"
  lastClientResponse :: jsstring
  clientSaysIDontKnow :: bool
  movementOffered :: bool
  integrationComplete :: bool
  sessionStarted :: bool
  sessionComplete :: bool

section \<open>The transition evaluator and the transition action\<close>

text \<open>
  \<open>shouldTransitionToNextStage\<close>: the minimum gate, then the switch over the stage. The
  switch has a case for each of the eleven stages, so its \<open>default\<close> branch is never
  taken and has no counterpart here.
\<close>

definition shouldTransitionToNextStage :: "SessionState \<Rightarrow> bool" where
  "shouldTransitionToNextStage state =
     (let config = MPT_STAGE_CONFIG (currentStage state) in
      if stageResponseCount state < minResponses config then False
      else case currentStage state of
          start_session \<Rightarrow> originalRequest (ctx state) \<noteq> None
        | collect_context \<Rightarrow> importanceRating state \<noteq> None \<or> stageResponseCount state \<ge> 3
        | clarify_request \<Rightarrow>
            clarifiedRequest (ctx state) \<noteq> None \<or> stageResponseCount state \<ge> 4
        | explore_strategy \<Rightarrow>
            currentStrategy (ctx state) \<noteq> None \<or> stageResponseCount state \<ge> 3
        | find_need \<Rightarrow> deepNeed (ctx state) \<noteq> None \<or> stageResponseCount state \<ge> 4
        | bodywork \<Rightarrow> bodyLocation (ctx state) \<noteq> None \<or> stageResponseCount state \<ge> 4
        | metaphor \<Rightarrow> ctx_metaphor (ctx state) \<noteq> None \<or> stageResponseCount state \<ge> 3
        | meta_position \<Rightarrow>
            insight (metaPositionData (ctx state)) \<noteq> None \<or> stageResponseCount state \<ge> 3
        | integration \<Rightarrow> integrationComplete state \<or> stageResponseCount state \<ge> 3
        | plan_actions \<Rightarrow> firstStep (ctx state) \<noteq> None \<or> stageResponseCount state \<ge> 3
        | finish \<Rightarrow> stageResponseCount state \<ge> 2)"

text \<open>
  \<open>Array.prototype.indexOf\<close>: the index of the first occurrence, or \<open>-1\<close>.
\<close>

fun indexOf :: "'a list \<Rightarrow> 'a \<Rightarrow> int" where
  "indexOf [] x = -1"
| "indexOf (y # ys) x =
     (if y = x then 0 else (let i = indexOf ys x in if i = -1 then -1 else i + 1))"

definition getNextStage :: "MPTStage \<Rightarrow> MPTStage option" where
  "getNextStage stage =
     (let currentIndex = indexOf MPT_STAGE_ORDER stage in
      if currentIndex = -1 \<or> currentIndex \<ge> int (length MPT_STAGE_ORDER) - 1 then None
      else Some (MPT_STAGE_ORDER ! nat (currentIndex + 1)))"

definition transitionToNextStage :: "SessionState \<Rightarrow> SessionState" where
  "transitionToNextStage state =
     (case getNextStage (currentStage state) of
        None \<Rightarrow> state\<lparr>sessionComplete := True\<rparr>
      | Some nextStage \<Rightarrow>
          state\<lparr>currentStage := nextStage,
                stageResponseCount := 0,
                currentQuestionIndex := 0,
                stageHistory := stageHistory state @ [currentStage state]\<rparr>)"

definition createInitialSessionState :: SessionState where
  "createInitialSessionState =
     \<lparr>currentStage = start_session,
      stageResponseCount = 0,
      currentQuestionIndex = 0,
      stageHistory = [],
      ctx =
        \<lparr>clientName = None,
         currentGoal = None,
         originalRequest = None,
         clarifiedRequest = None,
         currentStrategy = None,
         strategyIntention = None,
         deepNeed = None,
         bodyLocation = None,
         ctx_metaphor = None,
         energyLevel = None,
         newActions = [],
         firstStep = None,
         homework = None,
         stageData = [],
         requestClarification =
           \<lparr>isPositive = None, hasAuthorship = None, isConcrete = None, isRealistic = None,
            motivationChecked = None, rc_clarifiedRequest = None\<rparr>,
         bodyworkData =
           \<lparr>location = None, size_of = None, shape = None, density = None,
            temperature = None, movement = None, impulse = None\<rparr>,
         metaphorData = \<lparr>image = None, qualities = None, md_energyLevel = None\<rparr>,
         metaPositionData =
           \<lparr>viewOfSelf = None, viewOfLife = None, viewOfStrategy = None, insight = None,
            messageFromImage = None\<rparr>,
         integrationData = \<lparr>newFeeling = None, movementDone = False, integratedState = None\<rparr>\<rparr>,
      requestType = None,
      importanceRating = None,
      lastClientResponse = [],
      clientSaysIDontKnow = False,
      movementOffered = False,
      integrationComplete = False,
      sessionStarted = False,
      sessionComplete = False\<rparr>"

section \<open>Fact extractors and the category classifier\<close>

text \<open>
  \<open>REQUEST_TYPE_KEYWORDS\<close>, in the order of the object literal, which is the order in
  which \<open>Object.entries\<close> lists it. The keywords, transliterated:
  \<^item> \<open>fear_anxiety\<close>: strah; boyus'; trevoga; panika; volnuyus'; strashno;
  fobiya; bespokojstvo; navyazchivye mysli; trevozhus'; perezhivayu; uzhas; opasayus';
  boyazn'.
  \<^item> \<open>procrastination\<close>: prokrastinaciya; otkladyvayu; ne mogu nachat';
  tyanu vremya; ne mogu zastavit' sebya; vsyo vremya otkladyvayu; nikak ne nachnu;
  zatyagivayu; medlyu.
  \<^item> \<open>relationships\<close>: otnosheniya; partner; muzh; zhena; devushka; paren';
  brak; lyubov'; rasstavanie; razvod; ssory; konflikty v pare; ne ponimaem drug druga; razryv;
  izmena; revnost'.
  \<^item> \<open>self_worth\<close>: samoocenka; ne uveren v sebe; neuverennost'; ne dostoin;
  ne zasluzhivayu; chuvstvuyu sebya nikchemnym; samocennost'; ne cenyu sebya; nizkaya
  samoocenka; kompleksy.
  \<^item> \<open>burnout\<close>: vygoranie; ustal; net sil; apatiya; energii net;
  istoschenie; opustoshen; vyzhat; burnout; peregorel; net motivacii; vsyo nadoelo.
  \<^item> \<open>lost_desires\<close>: ne znayu chego hochu; poteryal zhelaniya; nichego ne
  hochu; net celej; net smysla; ne ponimayu chto hochu; poteryal interes; vsyo ravno.
  \<^item> \<open>role_conflict\<close>: konflikt rolej; ne mogu vybrat'; razryvayus';
  protivorechie; dve chasti; hochu i ne hochu; dolzhen no ne hochu; vnutrennij konflikt.
  \<^item> \<open>resistance\<close>: soprotivlenie; ne hochetsya; zastavlyayu sebya; net
  motivacii; sabotiruyu; meshayu sebe; ne mogu sebya zastavit'.
  \<^item> \<open>trauma\<close>: travma; detstvo; roditeli; obida; proshloe; vospominaniya;
  bol'no; ne otpuskaet; toksichnye; nasilie; zhestokost'.
  \<^item> \<open>identity\<close>: kto ya; ne znayu sebya; poteryal sebya; smysl zhizni;
  prednaznachenie; identichnost'; samoopredelenie; krizis; ne ponimayu sebya.
  \<^item> \<open>psychosomatic\<close>: bolit; telo; psihosomatika; simptom; zdorov'e;
  napryazhenie; zazhim; blok; spina; golova; zhivot; grud'; gorlo.
  \<^item> \<open>general\<close>: none.
\<close>

definition REQUEST_TYPE_KEYWORDS :: "(RequestType \<times> jsstring list) list" where
  "REQUEST_TYPE_KEYWORDS =
     [(fear_anxiety,
       [[1089, 1090, 1088, 1072, 1093], [1073, 1086, 1102, 1089, 1100],
        [1090, 1088, 1077, 1074, 1086, 1075, 1072], [1087, 1072, 1085, 1080, 1082, 1072],
        [1074, 1086, 1083, 1085, 1091, 1102, 1089, 1100],
        [1089, 1090, 1088, 1072, 1096, 1085, 1086], [1092, 1086, 1073, 1080, 1103],
        [1073, 1077, 1089, 1087, 1086, 1082, 1086, 1081, 1089, 1090, 1074, 1086],
        [1085, 1072, 1074, 1103, 1079, 1095, 1080, 1074, 1099, 1077, 32, 1084, 1099, 1089, 1083, 1080],
        [1090, 1088, 1077, 1074, 1086, 1078, 1091, 1089, 1100],
        [1087, 1077, 1088, 1077, 1078, 1080, 1074, 1072, 1102], [1091, 1078, 1072, 1089],
        [1086, 1087, 1072, 1089, 1072, 1102, 1089, 1100], [1073, 1086, 1103, 1079, 1085, 1100]]),
      (procrastination,
       [[1087, 1088, 1086, 1082, 1088, 1072, 1089, 1090, 1080, 1085, 1072, 1094, 1080, 1103],
        [1086, 1090, 1082, 1083, 1072, 1076, 1099, 1074, 1072, 1102],
        [1085, 1077, 32, 1084, 1086, 1075, 1091, 32, 1085, 1072, 1095, 1072, 1090, 1100],
        [1090, 1103, 1085, 1091, 32, 1074, 1088, 1077, 1084, 1103],
        [1085, 1077, 32, 1084, 1086, 1075, 1091, 32, 1079, 1072, 1089, 1090, 1072, 1074, 1080, 1090, 1100, 32, 1089, 1077, 1073, 1103],
        [1074, 1089, 1105, 32, 1074, 1088, 1077, 1084, 1103, 32, 1086, 1090, 1082, 1083, 1072, 1076, 1099, 1074, 1072, 1102],
        [1085, 1080, 1082, 1072, 1082, 32, 1085, 1077, 32, 1085, 1072, 1095, 1085, 1091],
        [1079, 1072, 1090, 1103, 1075, 1080, 1074, 1072, 1102], [1084, 1077, 1076, 1083, 1102]]),
      (relationships,
       [[1086, 1090, 1085, 1086, 1096, 1077, 1085, 1080, 1103],
        [1087, 1072, 1088, 1090, 1085, 1077, 1088], [1084, 1091, 1078],
        [1078, 1077, 1085, 1072], [1076, 1077, 1074, 1091, 1096, 1082, 1072],
        [1087, 1072, 1088, 1077, 1085, 1100], [1073, 1088, 1072, 1082],
        [1083, 1102, 1073, 1086, 1074, 1100],
        [1088, 1072, 1089, 1089, 1090, 1072, 1074, 1072, 1085, 1080, 1077],
        [1088, 1072, 1079, 1074, 1086, 1076], [1089, 1089, 1086, 1088, 1099],
        [1082, 1086, 1085, 1092, 1083, 1080, 1082, 1090, 1099, 32, 1074, 32, 1087, 1072, 1088, 1077],
        [1085, 1077, 32, 1087, 1086, 1085, 1080, 1084, 1072, 1077, 1084, 32, 1076, 1088, 1091, 1075, 32, 1076, 1088, 1091, 1075, 1072],
        [1088, 1072, 1079, 1088, 1099, 1074], [1080, 1079, 1084, 1077, 1085, 1072],
        [1088, 1077, 1074, 1085, 1086, 1089, 1090, 1100]]),
      (self_worth,
       [[1089, 1072, 1084, 1086, 1086, 1094, 1077, 1085, 1082, 1072],
        [1085, 1077, 32, 1091, 1074, 1077, 1088, 1077, 1085, 32, 1074, 32, 1089, 1077, 1073, 1077],
        [1085, 1077, 1091, 1074, 1077, 1088, 1077, 1085, 1085, 1086, 1089, 1090, 1100],
        [1085, 1077, 32, 1076, 1086, 1089, 1090, 1086, 1080, 1085],
        [1085, 1077, 32, 1079, 1072, 1089, 1083, 1091, 1078, 1080, 1074, 1072, 1102],
        [1095, 1091, 1074, 1089, 1090, 1074, 1091, 1102, 32, 1089, 1077, 1073, 1103, 32, 1085, 1080, 1082, 1095, 1077, 1084, 1085, 1099, 1084],
        [1089, 1072, 1084, 1086, 1094, 1077, 1085, 1085, 1086, 1089, 1090, 1100],
        [1085, 1077, 32, 1094, 1077, 1085, 1102, 32, 1089, 1077, 1073, 1103],
        [1085, 1080, 1079, 1082, 1072, 1103, 32, 1089, 1072, 1084, 1086, 1086, 1094, 1077, 1085, 1082, 1072],
        [1082, 1086, 1084, 1087, 1083, 1077, 1082, 1089, 1099]]),
      (burnout,
       [[1074, 1099, 1075, 1086, 1088, 1072, 1085, 1080, 1077], [1091, 1089, 1090, 1072, 1083],
        [1085, 1077, 1090, 32, 1089, 1080, 1083], [1072, 1087, 1072, 1090, 1080, 1103],
        [1101, 1085, 1077, 1088, 1075, 1080, 1080, 32, 1085, 1077, 1090],
        [1080, 1089, 1090, 1086, 1097, 1077, 1085, 1080, 1077],
        [1086, 1087, 1091, 1089, 1090, 1086, 1096, 1077, 1085], [1074, 1099, 1078, 1072, 1090],
        [98, 117, 114, 110, 111, 117, 116],
        [1087, 1077, 1088, 1077, 1075, 1086, 1088, 1077, 1083],
        [1085, 1077, 1090, 32, 1084, 1086, 1090, 1080, 1074, 1072, 1094, 1080, 1080],
        [1074, 1089, 1105, 32, 1085, 1072, 1076, 1086, 1077, 1083, 1086]]),
      (lost_desires,
       [[1085, 1077, 32, 1079, 1085, 1072, 1102, 32, 1095, 1077, 1075, 1086, 32, 1093, 1086, 1095, 1091],
        [1087, 1086, 1090, 1077, 1088, 1103, 1083, 32, 1078, 1077, 1083, 1072, 1085, 1080, 1103],
        [1085, 1080, 1095, 1077, 1075, 1086, 32, 1085, 1077, 32, 1093, 1086, 1095, 1091],
        [1085, 1077, 1090, 32, 1094, 1077, 1083, 1077, 1081],
        [1085, 1077, 1090, 32, 1089, 1084, 1099, 1089, 1083, 1072],
        [1085, 1077, 32, 1087, 1086, 1085, 1080, 1084, 1072, 1102, 32, 1095, 1090, 1086, 32, 1093, 1086, 1095, 1091],
        [1087, 1086, 1090, 1077, 1088, 1103, 1083, 32, 1080, 1085, 1090, 1077, 1088, 1077, 1089],
        [1074, 1089, 1105, 32, 1088, 1072, 1074, 1085, 1086]]),
      (role_conflict,
       [[1082, 1086, 1085, 1092, 1083, 1080, 1082, 1090, 32, 1088, 1086, 1083, 1077, 1081],
        [1085, 1077, 32, 1084, 1086, 1075, 1091, 32, 1074, 1099, 1073, 1088, 1072, 1090, 1100],
        [1088, 1072, 1079, 1088, 1099, 1074, 1072, 1102, 1089, 1100],
        [1087, 1088, 1086, 1090, 1080, 1074, 1086, 1088, 1077, 1095, 1080, 1077],
        [1076, 1074, 1077, 32, 1095, 1072, 1089, 1090, 1080],
        [1093, 1086, 1095, 1091, 32, 1080, 32, 1085, 1077, 32, 1093, 1086, 1095, 1091],
        [1076, 1086, 1083, 1078, 1077, 1085, 32, 1085, 1086, 32, 1085, 1077, 32, 1093, 1086, 1095, 1091],
        [1074, 1085, 1091, 1090, 1088, 1077, 1085, 1085, 1080, 1081, 32, 1082, 1086, 1085, 1092, 1083, 1080, 1082, 1090]]),
      (resistance,
       [[1089, 1086, 1087, 1088, 1086, 1090, 1080, 1074, 1083, 1077, 1085, 1080, 1077],
        [1085, 1077, 32, 1093, 1086, 1095, 1077, 1090, 1089, 1103],
        [1079, 1072, 1089, 1090, 1072, 1074, 1083, 1103, 1102, 32, 1089, 1077, 1073, 1103],
        [1085, 1077, 1090, 32, 1084, 1086, 1090, 1080, 1074, 1072, 1094, 1080, 1080],
        [1089, 1072, 1073, 1086, 1090, 1080, 1088, 1091, 1102],
        [1084, 1077, 1096, 1072, 1102, 32, 1089, 1077, 1073, 1077],
        [1085, 1077, 32, 1084, 1086, 1075, 1091, 32, 1089, 1077, 1073, 1103, 32, 1079, 1072, 1089, 1090, 1072, 1074, 1080, 1090, 1100]]),
      (trauma,
       [[1090, 1088, 1072, 1074, 1084, 1072], [1076, 1077, 1090, 1089, 1090, 1074, 1086],
        [1088, 1086, 1076, 1080, 1090, 1077, 1083, 1080], [1086, 1073, 1080, 1076, 1072],
        [1087, 1088, 1086, 1096, 1083, 1086, 1077],
        [1074, 1086, 1089, 1087, 1086, 1084, 1080, 1085, 1072, 1085, 1080, 1103],
        [1073, 1086, 1083, 1100, 1085, 1086],
        [1085, 1077, 32, 1086, 1090, 1087, 1091, 1089, 1082, 1072, 1077, 1090],
        [1090, 1086, 1082, 1089, 1080, 1095, 1085, 1099, 1077],
        [1085, 1072, 1089, 1080, 1083, 1080, 1077],
        [1078, 1077, 1089, 1090, 1086, 1082, 1086, 1089, 1090, 1100]]),
      (identity,
       [[1082, 1090, 1086, 32, 1103],
        [1085, 1077, 32, 1079, 1085, 1072, 1102, 32, 1089, 1077, 1073, 1103],
        [1087, 1086, 1090, 1077, 1088, 1103, 1083, 32, 1089, 1077, 1073, 1103],
        [1089, 1084, 1099, 1089, 1083, 32, 1078, 1080, 1079, 1085, 1080],
        [1087, 1088, 1077, 1076, 1085, 1072, 1079, 1085, 1072, 1095, 1077, 1085, 1080, 1077],
        [1080, 1076, 1077, 1085, 1090, 1080, 1095, 1085, 1086, 1089, 1090, 1100],
        [1089, 1072, 1084, 1086, 1086, 1087, 1088, 1077, 1076, 1077, 1083, 1077, 1085, 1080, 1077],
        [1082, 1088, 1080, 1079, 1080, 1089],
        [1085, 1077, 32, 1087, 1086, 1085, 1080, 1084, 1072, 1102, 32, 1089, 1077, 1073, 1103]]),
      (psychosomatic,
       [[1073, 1086, 1083, 1080, 1090], [1090, 1077, 1083, 1086],
        [1087, 1089, 1080, 1093, 1086, 1089, 1086, 1084, 1072, 1090, 1080, 1082, 1072],
        [1089, 1080, 1084, 1087, 1090, 1086, 1084],
        [1079, 1076, 1086, 1088, 1086, 1074, 1100, 1077],
        [1085, 1072, 1087, 1088, 1103, 1078, 1077, 1085, 1080, 1077],
        [1079, 1072, 1078, 1080, 1084], [1073, 1083, 1086, 1082],
        [1089, 1087, 1080, 1085, 1072], [1075, 1086, 1083, 1086, 1074, 1072],
        [1078, 1080, 1074, 1086, 1090], [1075, 1088, 1091, 1076, 1100],
        [1075, 1086, 1088, 1083, 1086]]),
      (general,
       [])]"

text \<open>
  The phrases of \<open>detectClientSaysIDontKnow\<close>, transliterated:
  ne znayu; ne ponimayu; ne chuvstvuyu; ne mogu otvetit'; zatrudnyayus'; ne uveren; ne
  oschuschayu; ne vizhu; neponyatno; slozhno skazat'; ne mogu sformulirovat'.
\<close>

definition idontknowPatterns :: "jsstring list" where
  "idontknowPatterns =
     [[1085, 1077, 32, 1079, 1085, 1072, 1102],
      [1085, 1077, 32, 1087, 1086, 1085, 1080, 1084, 1072, 1102],
      [1085, 1077, 32, 1095, 1091, 1074, 1089, 1090, 1074, 1091, 1102],
      [1085, 1077, 32, 1084, 1086, 1075, 1091, 32, 1086, 1090, 1074, 1077, 1090, 1080, 1090, 1100],
      [1079, 1072, 1090, 1088, 1091, 1076, 1085, 1103, 1102, 1089, 1100],
      [1085, 1077, 32, 1091, 1074, 1077, 1088, 1077, 1085],
      [1085, 1077, 32, 1086, 1097, 1091, 1097, 1072, 1102],
      [1085, 1077, 32, 1074, 1080, 1078, 1091],
      [1085, 1077, 1087, 1086, 1085, 1103, 1090, 1085, 1086],
      [1089, 1083, 1086, 1078, 1085, 1086, 32, 1089, 1082, 1072, 1079, 1072, 1090, 1100],
      [1085, 1077, 32, 1084, 1086, 1075, 1091, 32, 1089, 1092, 1086, 1088, 1084, 1091, 1083, 1080, 1088, 1086, 1074, 1072, 1090, 1100]]"

text \<open>
  The stop words of \<open>extractClientName\<close>, transliterated:
  ya; mne; menya; moj; moya; moyo; eto; chto; kak; tak; hochu; mogu; budu; dolzhen;
  chuvstvuyu; dumayu; ponimayu; znayu; vizhu; slyshu; delayu; govoryu; schitayu; pomnyu;
  lyublyu; nenavizhu; boyus'; hotel; byla; byl; est'; tozhe; ochen'; prosto; tut; tam; zdes';
  sejchas; vsegda; nikogda; inogda; chasto; redko; davno; rad; rada; gotov; gotova; soglasen;
  soglasna.
\<close>

definition stopWords :: "jsstring list" where
  "stopWords =
     [[1103], [1084, 1085, 1077], [1084, 1077, 1085, 1103], [1084, 1086, 1081],
      [1084, 1086, 1103], [1084, 1086, 1105], [1101, 1090, 1086], [1095, 1090, 1086],
      [1082, 1072, 1082], [1090, 1072, 1082], [1093, 1086, 1095, 1091],
      [1084, 1086, 1075, 1091], [1073, 1091, 1076, 1091], [1076, 1086, 1083, 1078, 1077, 1085],
      [1095, 1091, 1074, 1089, 1090, 1074, 1091, 1102], [1076, 1091, 1084, 1072, 1102],
      [1087, 1086, 1085, 1080, 1084, 1072, 1102], [1079, 1085, 1072, 1102],
      [1074, 1080, 1078, 1091], [1089, 1083, 1099, 1096, 1091], [1076, 1077, 1083, 1072, 1102],
      [1075, 1086, 1074, 1086, 1088, 1102], [1089, 1095, 1080, 1090, 1072, 1102],
      [1087, 1086, 1084, 1085, 1102], [1083, 1102, 1073, 1083, 1102],
      [1085, 1077, 1085, 1072, 1074, 1080, 1078, 1091], [1073, 1086, 1102, 1089, 1100],
      [1093, 1086, 1090, 1077, 1083], [1073, 1099, 1083, 1072], [1073, 1099, 1083],
      [1077, 1089, 1090, 1100], [1090, 1086, 1078, 1077], [1086, 1095, 1077, 1085, 1100],
      [1087, 1088, 1086, 1089, 1090, 1086], [1090, 1091, 1090], [1090, 1072, 1084],
      [1079, 1076, 1077, 1089, 1100], [1089, 1077, 1081, 1095, 1072, 1089],
      [1074, 1089, 1077, 1075, 1076, 1072], [1085, 1080, 1082, 1086, 1075, 1076, 1072],
      [1080, 1085, 1086, 1075, 1076, 1072], [1095, 1072, 1089, 1090, 1086],
      [1088, 1077, 1076, 1082, 1086], [1076, 1072, 1074, 1085, 1086], [1088, 1072, 1076],
      [1088, 1072, 1076, 1072], [1075, 1086, 1090, 1086, 1074],
      [1075, 1086, 1090, 1086, 1074, 1072], [1089, 1086, 1075, 1083, 1072, 1089, 1077, 1085],
      [1089, 1086, 1075, 1083, 1072, 1089, 1085, 1072]]"

text \<open>
  \<open>detectRequestType\<close>: the categories in table order, \<open>general\<close> skipped; the first
  category one of whose keywords occurs in the lower-cased message, else \<open>general\<close>.
\<close>

fun detectIn :: "jsstring \<Rightarrow> (RequestType \<times> jsstring list) list \<Rightarrow> RequestType" where
  "detectIn lowerMessage [] = general"
| "detectIn lowerMessage ((type, keywords) # entries) =
     (if type = general then detectIn lowerMessage entries
      else if list_ex (\<lambda>keyword. str_includes lowerMessage keyword) keywords then type
      else detectIn lowerMessage entries)"

definition detectRequestType :: "jsstring \<Rightarrow> RequestType" where
  "detectRequestType message = detectIn (toLowerCase message) REQUEST_TYPE_KEYWORDS"

definition detectClientSaysIDontKnow :: "jsstring \<Rightarrow> bool" where
  "detectClientSaysIDontKnow message =
     (let lowerMessage = toLowerCase message
      in list_ex (\<lambda>pattern. str_includes lowerMessage pattern) idontknowPatterns)"

text \<open>
  A chat message (shared/schema.ts). Its \<open>id\<close> and \<open>timestamp\<close> (a random UUID and the
  clock) are never read by the code modelled here and are left out.
\<close>

datatype Role = User | Assistant

record Message =
  role :: Role
  content :: jsstring

text \<open>
  The seven patterns of \<open>extractClientName\<close>, all with the \<open>i\<close> flag and all ending in
  the capture group \<open>([letters]+)\<close>. Transliterated: \<open>menya zovut X\<close>, \<open>zovi menya X\<close>,
  \<open>mozhesh' zvat' menya X\<close>, \<open>moyo? imya X\<close>, \<open>imya[:\s]+X\<close>, \<open>ya -- X\<close> (with an em dash,
  8212) and \<open>privet,?\s+ya X\<close>.
\<close>

definition nameGroup :: regex where
  "nameGroup = Grp 1 (Plus (False, letterRanges))"

definition namePatterns :: "(bool \<times> regex) list" where
  "namePatterns =
     [(True, seqs [lit [1084, 1077, 1085, 1103, 32, 1079, 1086, 1074, 1091, 1090, 32], nameGroup]),
      (True, seqs [lit [1079, 1086, 1074, 1080, 32, 1084, 1077, 1085, 1103, 32], nameGroup]),
      (True, seqs [lit [1084, 1086, 1078, 1077, 1096, 1100, 32, 1079, 1074, 1072, 1090, 1100, 32,
                        1084, 1077, 1085, 1103, 32], nameGroup]),
      (True, seqs [lit [1084, 1086], Opt (Chr 1105), lit [32, 1080, 1084, 1103, 32], nameGroup]),
      (True, seqs [lit [1080, 1084, 1103], Plus (False, (58, 58) # spaceRanges), nameGroup]),
      (True, seqs [lit [1103, 32, 8212, 32], nameGroup]),
      (True, seqs [lit [1087, 1088, 1080, 1074, 1077, 1090], Opt (Chr 44),
                   Plus (False, spaceRanges), lit [1103, 32], nameGroup])]"

text \<open>
  The inner loop of \<open>extractClientName\<close> over the patterns, for one message: the first
  pattern whose capture has 2 to 20 code units and, capitalised, is not a stop word.
  (Group 1 is part of every pattern, so a match always has it; the branch without it
  is never taken.)
\<close>

fun nameFromPatterns :: "(bool \<times> regex) list \<Rightarrow> jsstring \<Rightarrow> jsstring option" where
  "nameFromPatterns [] text = None"
| "nameFromPatterns (pattern # patterns) text =
     (case str_match text pattern of
        None \<Rightarrow> nameFromPatterns patterns text
      | Some cs \<Rightarrow>
          (case map_of cs 1 of
             None \<Rightarrow> nameFromPatterns patterns text
           | Some m \<Rightarrow>
               if length m \<ge> 2 \<and> length m \<le> 20 then
                 (let name = toUpperCase (take 1 m) @ toLowerCase (drop 1 m)
                  in if toLowerCase name \<notin> set stopWords then Some name
                     else nameFromPatterns patterns text)
               else nameFromPatterns patterns text))"

fun extractClientName :: "Message list \<Rightarrow> jsstring option" where
  "extractClientName [] = None"
| "extractClientName (msg # messages) =
     (if role msg = User then
        (case nameFromPatterns namePatterns (content msg) of
           Some name \<Rightarrow> Some name
         | None \<Rightarrow> extractClientName messages)
      else extractClientName messages)"

text \<open>
  \<open>parseInt\<close> on a capture of \<open>\d{1,2}\<close>: the value of the leading decimal digits, or
  \<open>NaN\<close> (here \<open>None\<close>) when there is none. (Leading white space, a sign and a radix
  prefix, which \<open>parseInt\<close> also accepts, cannot occur in such a capture.)
\<close>

definition parseInt :: "jsstring \<Rightarrow> int option" where
  "parseInt s =
     (let ds = takeWhile (\<lambda>c. 48 \<le> c \<and> c \<le> 57) s
      in if ds = [] then None else Some (foldl (\<lambda>a c. 10 * a + int (c - 48)) 0 ds))"

text \<open>
  The four patterns of \<open>extractImportanceRating\<close>: \<open>(\d{1,2})\s*(iz|/)\s*10\<close>,
  \<open>na\s*(\d{1,2})\<close> and \<open>ocenivayu[^\d]*(\d{1,2})\<close> with the \<open>i\<close> flag, and
  \<open>^(\d{1,2})$\<close> without it.
\<close>

definition ratingPatterns :: "(bool \<times> regex) list" where
  "ratingPatterns =
     [(True, seqs [Grp 1 digits12, Star (False, spaceRanges), Grp 2 (Alt (lit [1080, 1079]) (Chr 47)),
                   Star (False, spaceRanges), lit [49, 48]]),
      (True, seqs [lit [1085, 1072], Star (False, spaceRanges), Grp 1 digits12]),
      (True, seqs [lit [1086, 1094, 1077, 1085, 1080, 1074, 1072, 1102], Star (True, digitRanges),
                   Grp 1 digits12]),
      (False, seqs [Bol, Grp 1 digits12, Eol])]"

text \<open>
  The loop of \<open>extractImportanceRating\<close>: a pattern that matches returns its number only
  when the number is from 1 to 10; otherwise the loop goes on to the next pattern.
\<close>

fun ratingFromPatterns :: "(bool \<times> regex) list \<Rightarrow> jsstring \<Rightarrow> int option" where
  "ratingFromPatterns [] message = None"
| "ratingFromPatterns (pattern # patterns) message =
     (case str_match message pattern of
        None \<Rightarrow> ratingFromPatterns patterns message
      | Some cs \<Rightarrow>
          (case Option.bind (map_of cs 1) parseInt of
             None \<Rightarrow> ratingFromPatterns patterns message
           | Some num \<Rightarrow>
               if num \<ge> 1 \<and> num \<le> 10 then Some num
               else ratingFromPatterns patterns message))"

definition extractImportanceRating :: "jsstring \<Rightarrow> int option" where
  "extractImportanceRating message = ratingFromPatterns ratingPatterns message"


section \<open>The chat route (routes.ts)\<close>

text \<open>
  The server keeps two process-wide maps keyed by session id: \<open>sessions\<close> (of a session
  only the message list is modelled; its scenario and script fields and the copy of the
  state made at creation are not read by the state machine) and \<open>sessionStates\<close>.
  Entries are added and replaced, never removed.

  Of the handler, the part that reads and writes these two maps is modelled. The
  scenario and script selection, the bot modes, the prompt composition and the
  authorship reframing (\<open>transformToAuthorship\<close>, whose result goes into the prompt only)
  do not touch the session state; the text generation enters as the reply it
  contributes.
\<close>

record Session =
  messages :: "Message list"

record Store =
  sessions :: "string \<rightharpoonup> Session"
  sessionStates :: "string \<rightharpoonup> SessionState"

definition emptyStore :: Store where
  "emptyStore = \<lparr>sessions = Map.empty, sessionStates = Map.empty\<rparr>"

text \<open>
  The request body, a JSON object. Each of the three properties that the schema reads
  is absent, a string, or a value of another type (\<open>null\<close>, a number, an object).
\<close>

datatype 'a field = Absent | Str 'a | NotString

record ChatRequest =
  req_message :: "jsstring field"
  req_sessionId :: "string field"
  req_scenarioId :: "string field"

text \<open>
  \<open>chatRequestSchema\<close> (shared/schema.ts) and its \<open>safeParse\<close>: \<open>message\<close> is
  \<open>z.string().min(1)\<close>, a string of at least one code unit, with no upper bound;
  \<open>sessionId\<close> and \<open>scenarioId\<close> are \<open>z.string().optional()\<close>, absent or a string. The
  result is the parsed data, or nothing when the parse fails.
\<close>

fun optionalString :: "'a field \<Rightarrow> 'a option option" where
  "optionalString Absent = Some None"
| "optionalString (Str s) = Some (Some s)"
| "optionalString NotString = None"

definition chatRequestSchema :: "ChatRequest \<Rightarrow> (jsstring \<times> string option \<times> string option) option" where
  "chatRequestSchema req =
     (case req_message req of
        Absent \<Rightarrow> None
      | NotString \<Rightarrow> None
      | Str msg \<Rightarrow>
          if length msg \<ge> 1 then
            (case optionalString (req_sessionId req) of
               None \<Rightarrow> None
             | Some sessionId \<Rightarrow>
                 (case optionalString (req_scenarioId req) of
                    None \<Rightarrow> None
                  | Some scenarioId \<Rightarrow> Some (msg, sessionId, scenarioId)))
          else None)"

text \<open>
  The answers of the route: status 400 "Invalid request"; the event stream of a
  processed turn for a session id; and the error reported when the text generation
  fails, which happens after the state has been updated.
\<close>

datatype ChatResponse = InvalidRequest | Completed string | GenerationFailed string

text \<open>
  The state update of a turn: the statements of the handler from
  \<open>sessionState.lastClientResponse = message\<close> to the transition. \<open>history\<close> is the
  message list of the session with the new user message already pushed. A name is
  stored when \<open>extractClientName\<close> returns a truthy value (a non-empty string), a rating
  when \<open>extractImportanceRating\<close> returns a number; \<open>Object.assign\<close> of the state returned
  by \<open>transitionToNextStage\<close> overwrites every field.
\<close>

definition updateSessionState :: "Message list \<Rightarrow> SessionState \<Rightarrow> jsstring \<Rightarrow> SessionState" where
  "updateSessionState history sessionState msg =
     (let s1 = sessionState
                 \<lparr>lastClientResponse := msg,
                  clientSaysIDontKnow := detectClientSaysIDontKnow msg,
                  stageResponseCount := stageResponseCount sessionState + 1\<rparr>;
          s2 = (case extractClientName history of
                  None \<Rightarrow> s1
                | Some clientName' \<Rightarrow>
                    if clientName' \<noteq> [] then s1\<lparr>ctx := (ctx s1)\<lparr>clientName := Some clientName'\<rparr>\<rparr>
                    else s1);
          s3 = (case extractImportanceRating msg of
                  None \<Rightarrow> s2
                | Some rating \<Rightarrow> s2\<lparr>importanceRating := Some rating\<rparr>)
      in if shouldTransitionToNextStage s3 then transitionToNextStage s3 else s3)"

text \<open>
  The state with which the new-session branch starts: the category of the first
  message is pinned and the message is recorded as the original request.
\<close>

definition newSessionState :: "jsstring \<Rightarrow> SessionState" where
  "newSessionState msg =
     createInitialSessionState
       \<lparr>ctx := (ctx createInitialSessionState)\<lparr>originalRequest := Some msg\<rparr>,
        requestType := Some (detectRequestType msg),
        sessionStarted := True\<rparr>"

text \<open>
  The session a request works on: the stored one when the request names an id that
  \<open>sessions\<close> has, otherwise a new session under the fresh id \<open>newId\<close> (the result of
  \<open>randomUUID()\<close>), stored in both maps.
\<close>

definition openSession :: "string \<Rightarrow> Store \<Rightarrow> string option \<Rightarrow> jsstring \<Rightarrow> string \<times> Session \<times> Store" where
  "openSession newId store sessionId msg =
     (case (case sessionId of
              None \<Rightarrow> None
            | Some sid \<Rightarrow> if sid \<noteq> [] then map_option (Pair sid) (sessions store sid) else None) of
        Some (sid, session) \<Rightarrow> (sid, session, store)
      | None \<Rightarrow>
          (newId, \<lparr>messages = []\<rparr>,
           store\<lparr>sessions := (sessions store)(newId \<mapsto> \<lparr>messages = []\<rparr>),
                 sessionStates := (sessionStates store)(newId \<mapsto> newSessionState msg)\<rparr>))"

text \<open>
  \<open>POST /api/chat\<close>. The parsed \<open>scenarioId\<close> only selects the scenario of a new
  session and is not used further here. \<open>reply\<close> is the assistant message that the text generation
  contributes to the history, \<open>None\<close> when the generation fails (then nothing is pushed,
  but the state has already been updated).
\<close>

definition chat :: "string \<Rightarrow> Store \<Rightarrow> ChatRequest \<Rightarrow> jsstring option \<Rightarrow> ChatResponse \<times> Store" where
  "chat newId store req reply =
     (case chatRequestSchema req of
        None \<Rightarrow> (InvalidRequest, store)
      | Some (msg, sessionId, scenarioId) \<Rightarrow>
          (case openSession newId store sessionId msg of
             (sid, session, store1) \<Rightarrow>
               (let history = messages session @ [\<lparr>role = User, content = msg\<rparr>];
                    sessionState =
                      (case sessionStates store1 sid of
                         Some s \<Rightarrow> s
                       | None \<Rightarrow>
                           createInitialSessionState
                             \<lparr>ctx := (ctx createInitialSessionState)\<lparr>originalRequest := Some msg\<rparr>\<rparr>);
                    sessionState' = updateSessionState history sessionState msg;
                    history' =
                      (case reply of
                         None \<Rightarrow> history
                       | Some text \<Rightarrow> history @ [\<lparr>role = Assistant, content = text\<rparr>])
                in ((case reply of None \<Rightarrow> GenerationFailed sid | Some text \<Rightarrow> Completed sid),
                    store1\<lparr>sessions := (sessions store1)(sid \<mapsto> \<lparr>messages = history'\<rparr>),
                           sessionStates := (sessionStates store1)(sid \<mapsto> sessionState')\<rparr>))))"

text \<open>\<open>POST /api/sessions/new\<close>: an empty session with the initial state.\<close>

definition newSession :: "string \<Rightarrow> Store \<Rightarrow> Store" where
  "newSession newId store =
     store\<lparr>sessions := (sessions store)(newId \<mapsto> \<lparr>messages = []\<rparr>),
           sessionStates := (sessionStates store)(newId \<mapsto> createInitialSessionState)\<rparr>"

text \<open>
  The requests that take the new-session branch of the chat handler: those for which
  the test \<open>sessionId && sessions.has(sessionId)\<close> fails.
\<close>

definition opensNewSession :: "Store \<Rightarrow> string option \<Rightarrow> bool" where
  "opensNewSession store sessionId =
     (case sessionId of None \<Rightarrow> True | Some sid \<Rightarrow> sid = [] \<or> sessions store sid = None)"

text \<open>
  Modelled from the spec: the size bound on a request. The specification asks that a
  turn whose utterance exceeds a size bound be rejected with an input error and no
  change of state. The bound is enforced by the JSON body parser, which is set up in the
  server entry file; that file is not among the sources. The change log in replit.md
  records it ("Fixed 413 error: Increased body size limit to 50MB for large text
  messages"): a body of more than 50MB is answered with status 413.
\<close>

definition bodyLimit :: nat where
  "bodyLimit = 50 * 1024 * 1024"

datatype HttpResponse = PayloadTooLarge | Handled ChatResponse

text \<open>
  Modelled from the spec: \<open>POST /api/chat\<close> behind the body parser. \<open>bytes\<close> is the size
  of the request body; a body over the limit is refused before the handler runs and the
  store is not touched, otherwise the handler answers.
\<close>

definition postChat ::
  "nat \<Rightarrow> string \<Rightarrow> Store \<Rightarrow> ChatRequest \<Rightarrow> jsstring option \<Rightarrow> HttpResponse \<times> Store" where
  "postChat bytes newId store req reply =
     (if bytes > bodyLimit then (PayloadTooLarge, store)
      else (case chat newId store req reply of (response, store') \<Rightarrow> (Handled response, store')))"

text \<open>
  The histories of the server: \<open>run store store'\<close> when \<open>store'\<close> is reached from
  \<open>store\<close> by requests to the two routes, each new id being one that is not in use.
\<close>

inductive run :: "Store \<Rightarrow> Store \<Rightarrow> bool" where
  run_refl: "run store store"
| run_chat:
    "run store store' \<Longrightarrow> newId \<notin> dom (sessions store') \<Longrightarrow> newId \<notin> dom (sessionStates store')
     \<Longrightarrow> run store (snd (chat newId store' req reply))"
| run_new:
    "run store store' \<Longrightarrow> newId \<notin> dom (sessions store') \<Longrightarrow> newId \<notin> dom (sessionStates store')
     \<Longrightarrow> run store (newSession newId store')"

text \<open>
  The rank of a stage in the fixed order, and the turn-count ceiling of a stage: the
  number \<open>n\<close> of the alternative \<open>|| state.stageResponseCount >= n\<close> in the stage's case
  of \<open>shouldTransitionToNextStage\<close>. The cases of \<open>start_session\<close> and \<open>finish\<close> have no
  such alternative.
\<close>

definition stageIndex :: "MPTStage \<Rightarrow> int" where
  "stageIndex stage = indexOf MPT_STAGE_ORDER stage"

fun stageCeiling :: "MPTStage \<Rightarrow> int option" where
  "stageCeiling start_session = None"
| "stageCeiling collect_context = Some 3"
| "stageCeiling clarify_request = Some 4"
| "stageCeiling explore_strategy = Some 3"
| "stageCeiling find_need = Some 4"
| "stageCeiling bodywork = Some 4"
| "stageCeiling metaphor = Some 3"
| "stageCeiling meta_position = Some 3"
| "stageCeiling integration = Some 3"
| "stageCeiling plan_actions = Some 3"
| "stageCeiling finish = None"


text \<open>
  The seven target facts of the context that the evaluator tests, all null.
\<close>

definition targetFactsNull :: "SessionState \<Rightarrow> bool" where
  "targetFactsNull state =
     (clarifiedRequest (ctx state) = None
      \<and> currentStrategy (ctx state) = None
      \<and> deepNeed (ctx state) = None
      \<and> bodyLocation (ctx state) = None
      \<and> ctx_metaphor (ctx state) = None
      \<and> insight (metaPositionData (ctx state)) = None
      \<and> firstStep (ctx state) = None)"

section \<open>Auxiliary notions and example inputs\<close>

text \<open>
  The stored name agrees with the extractor on the stored history: whenever the state
  has a name, \<open>extractClientName\<close> finds that name in the messages of the session.
\<close>

definition nameKept :: "Message list \<Rightarrow> SessionState \<Rightarrow> bool" where
  "nameKept history s = (\<forall>n. clientName (ctx s) = Some n \<longrightarrow> extractClientName history = Some n)"

definition storeNamesKept :: "Store \<Rightarrow> bool" where
  "storeNamesKept store =
     (\<forall>sid s. sessionStates store sid = Some s \<longrightarrow>
        (\<exists>session. sessions store sid = Some session \<and> nameKept (messages session) s))"

text \<open>
  What one pattern of \<open>extractImportanceRating\<close> contributes for a message: the number
  it captures, when it matches and the number is from 1 to 10.
\<close>

definition ratingOf :: "jsstring \<Rightarrow> bool \<times> regex \<Rightarrow> int option" where
  "ratingOf message pattern =
     (case str_match message pattern of
        None \<Rightarrow> None
      | Some cs \<Rightarrow>
          (case Option.bind (map_of cs 1) parseInt of
             None \<Rightarrow> None
           | Some num \<Rightarrow> if num \<ge> 1 \<and> num \<le> 10 then Some num else None))"

text \<open>
  The specification's wording "the first matching pattern wins", taken literally: the
  first pattern that matches decides the result alone. This is not the loop of the
  source; it is here to be compared with it.
\<close>

definition firstMatchWins :: "jsstring \<Rightarrow> int option" where
  "firstMatchWins message =
     (case List.find (\<lambda>pattern. str_match message pattern \<noteq> None) ratingPatterns of
        None \<Rightarrow> None
      | Some pattern \<Rightarrow> ratingOf message pattern)"

text \<open>
  Example utterances: \<open>menya zovut Anna\<close> and \<open>menya zovut Pyotr\<close> ("my name is ...");
  \<open>20 iz 10, na 5\<close> ("20 out of 10, at 5"); the English first turn of the
  specification's scenario; \<open>ya vsyo vremya otkladyvayu diplom\<close> ("I keep putting off
  my thesis"); and an utterance of one letter \<open>a\<close> more than the body limit has
  bytes.
\<close>

definition annaMsg :: jsstring where
  "annaMsg = [1084, 1077, 1085, 1103, 32, 1079, 1086, 1074, 1091, 1090, 32, 1040, 1085, 1085, 1072]"

definition pyotrMsg :: jsstring where
  "pyotrMsg = [1084, 1077, 1085, 1103, 32, 1079, 1086, 1074, 1091, 1090, 32, 1055, 1105, 1090, 1088]"

definition twoRatingsMsg :: jsstring where
  "twoRatingsMsg = [50, 48, 32, 1080, 1079, 32, 49, 48, 44, 32, 1085, 1072, 32, 53]"

definition thesisMsg :: jsstring where
  "thesisMsg = map of_char ''I keep putting off writing my thesis''"

definition otkladyvayuMsg :: jsstring where
  "otkladyvayuMsg =
     [1103, 32, 1074, 1089, 1105, 32, 1074, 1088, 1077, 1084, 1103, 32, 1086, 1090, 1082, 1083,
      1072, 1076, 1099, 1074, 1072, 1102, 32, 1076, 1080, 1087, 1083, 1086, 1084]"

definition hugeMsg :: jsstring where
  "hugeMsg = replicate (bodyLimit + 1) 97"

text \<open>
  Example requests with the utterance \<open>7\<close>: one that opens a session, one addressed
  to the session \<open>s1\<close>; and the stores after the first followed by the second up to
  five times (no generated reply, the ids \<open>s1\<close> to \<open>s6\<close> drawn in turn).
\<close>

definition sevenFirst :: ChatRequest where
  "sevenFirst = \<lparr>req_message = Str [55], req_sessionId = Absent, req_scenarioId = Absent\<rparr>"

definition sevenAgain :: ChatRequest where
  "sevenAgain = \<lparr>req_message = Str [55], req_sessionId = Str ''s1'', req_scenarioId = Absent\<rparr>"

definition afterOneTurn :: Store where
  "afterOneTurn = snd (chat ''s1'' emptyStore sevenFirst None)"

definition afterTwoTurns :: Store where
  "afterTwoTurns = snd (chat ''s2'' afterOneTurn sevenAgain None)"

definition afterThreeTurns :: Store where
  "afterThreeTurns = snd (chat ''s3'' afterTwoTurns sevenAgain None)"

definition afterFourTurns :: Store where
  "afterFourTurns = snd (chat ''s4'' afterThreeTurns sevenAgain None)"

definition afterFiveTurns :: Store where
  "afterFiveTurns = snd (chat ''s5'' afterFourTurns sevenAgain None)"

definition afterSixTurns :: Store where
  "afterSixTurns = snd (chat ''s6'' afterFiveTurns sevenAgain None)"

section \<open>Evaluation of the extractors on the example inputs\<close>

lemmas string_eval = toLowerCase_def toUpperCase_def lowerUnit_def upperUnit_def

lemmas regex_eval = str_match_def lit_def Plus_def sameUnit_def inSet_def digits12_def
  digitRanges_def spaceRanges_def letterRanges_def upperUnit_def lowerUnit_def

lemma anna_name: "nameFromPatterns namePatterns annaMsg = Some [1040, 1085, 1085, 1072]"
  by (simp add: annaMsg_def namePatterns_def nameGroup_def stopWords_def regex_eval string_eval)

lemma pyotr_name: "nameFromPatterns namePatterns pyotrMsg = Some [1055, 1105, 1090, 1088]"
  by (simp add: pyotrMsg_def namePatterns_def nameGroup_def stopWords_def regex_eval string_eval)

lemma two_ratings_first:
  "str_match twoRatingsMsg (hd ratingPatterns) = Some [(2, [1080, 1079]), (1, [50, 48])]"
  by (simp add: twoRatingsMsg_def ratingPatterns_def regex_eval)

lemma two_ratings_result: "extractImportanceRating twoRatingsMsg = Some 5"
  by (simp add: twoRatingsMsg_def extractImportanceRating_def ratingPatterns_def parseInt_def regex_eval)

lemma thesis_units:
  "thesisMsg =
     [73, 32, 107, 101, 101, 112, 32, 112, 117, 116, 116, 105, 110, 103, 32, 111, 102, 102, 32,
      119, 114, 105, 116, 105, 110, 103, 32, 109, 121, 32, 116, 104, 101, 115, 105, 115]"
  by (simp add: thesisMsg_def)

lemma thesis_type: "detectRequestType thesisMsg = general"
  by (simp add: thesis_units detectRequestType_def REQUEST_TYPE_KEYWORDS_def string_eval)

lemma otkladyvayu_type: "detectRequestType otkladyvayuMsg = procrastination"
  by (simp add: otkladyvayuMsg_def detectRequestType_def REQUEST_TYPE_KEYWORDS_def string_eval)

lemma seven_rating: "extractImportanceRating [55] = Some 7"
  by (simp add: extractImportanceRating_def ratingPatterns_def parseInt_def regex_eval)

lemma seven_name: "nameFromPatterns namePatterns [55] = None"
  by (simp add: namePatterns_def nameGroup_def regex_eval)

lemma seven_idk: "detectClientSaysIDontKnow [55] = False"
  by (simp add: detectClientSaysIDontKnow_def idontknowPatterns_def string_eval)

lemma seven_type: "detectRequestType [55] = general"
  by (simp add: detectRequestType_def REQUEST_TYPE_KEYWORDS_def string_eval)

section \<open>The minimum gate and the terminal transition\<close>

lemma getNextStage_finish: "getNextStage finish = None"
  by (simp add: getNextStage_def MPT_STAGE_ORDER_def)

text \<open>
  C2. Below the minimum-response threshold of the current stage the evaluator answers
  false, whatever the context, the rating and the flags hold.
\<close>

theorem below_minimum_no_transition:
  "stageResponseCount state < minResponses (MPT_STAGE_CONFIG (currentStage state))
   \<Longrightarrow> \<not> shouldTransitionToNextStage state"
  by (simp add: shouldTransitionToNextStage_def)

theorem below_minimum_no_transition_witness:
  "stageResponseCount (createInitialSessionState\<lparr>importanceRating := Some 9\<rparr>)
     < minResponses (MPT_STAGE_CONFIG
         (currentStage (createInitialSessionState\<lparr>importanceRating := Some 9\<rparr>)))
   \<and> \<not> shouldTransitionToNextStage (createInitialSessionState\<lparr>importanceRating := Some 9\<rparr>)"
  using below_minimum_no_transition [of "createInitialSessionState\<lparr>importanceRating := Some 9\<rparr>"]
  by (simp add: createInitialSessionState_def)

text \<open>
  C5. At \<open>finish\<close> the transition action only sets \<open>sessionComplete\<close>: the stage stays
  \<open>finish\<close>, nothing is appended to the history, the counter is not reset, and every
  other field is as before. The action is a total function, so this is a result and
  not an error.
\<close>

theorem transition_at_finish:
  "currentStage state = finish
   \<Longrightarrow> transitionToNextStage state = state\<lparr>sessionComplete := True\<rparr>
       \<and> currentStage (transitionToNextStage state) = finish
       \<and> sessionComplete (transitionToNextStage state)
       \<and> stageHistory (transitionToNextStage state) = stageHistory state
       \<and> stageResponseCount (transitionToNextStage state) = stageResponseCount state"
  by (simp add: transitionToNextStage_def getNextStage_finish)

theorem transition_at_finish_witness:
  "currentStage (createInitialSessionState\<lparr>currentStage := finish, stageResponseCount := 2\<rparr>) = finish
   \<and> transitionToNextStage (createInitialSessionState\<lparr>currentStage := finish, stageResponseCount := 2\<rparr>)
       = createInitialSessionState
           \<lparr>currentStage := finish, stageResponseCount := 2, sessionComplete := True\<rparr>"
  using transition_at_finish
          [of "createInitialSessionState\<lparr>currentStage := finish, stageResponseCount := 2\<rparr>"]
  by (simp add: createInitialSessionState_def)


section \<open>The stage order\<close>

lemma stageIndex_simps:
  "stageIndex start_session = 0" "stageIndex collect_context = 1" "stageIndex clarify_request = 2"
  "stageIndex explore_strategy = 3" "stageIndex find_need = 4" "stageIndex bodywork = 5"
  "stageIndex metaphor = 6" "stageIndex meta_position = 7" "stageIndex integration = 8"
  "stageIndex plan_actions = 9" "stageIndex finish = 10"
  by (simp_all add: stageIndex_def MPT_STAGE_ORDER_def)

lemma getNextStage_simps:
  "getNextStage start_session = Some collect_context"
  "getNextStage collect_context = Some clarify_request"
  "getNextStage clarify_request = Some explore_strategy"
  "getNextStage explore_strategy = Some find_need"
  "getNextStage find_need = Some bodywork"
  "getNextStage bodywork = Some metaphor"
  "getNextStage metaphor = Some meta_position"
  "getNextStage meta_position = Some integration"
  "getNextStage integration = Some plan_actions"
  "getNextStage plan_actions = Some finish"
  by (simp_all add: getNextStage_def MPT_STAGE_ORDER_def)

lemma getNextStage_index:
  "getNextStage stage = Some next \<Longrightarrow> stageIndex next = stageIndex stage + 1"
  by (cases stage) (auto simp: getNextStage_simps getNextStage_finish stageIndex_simps)

lemma transition_stage:
  "currentStage (transitionToNextStage state) =
     (case getNextStage (currentStage state) of None \<Rightarrow> currentStage state | Some next \<Rightarrow> next)"
  by (simp add: transitionToNextStage_def split: option.splits)

lemma update_stage:
  "currentStage (updateSessionState history s msg) = currentStage s
   \<or> getNextStage (currentStage s) = Some (currentStage (updateSessionState history s msg))"
  by (auto simp: updateSessionState_def Let_def transition_stage split: option.splits)

lemma update_index:
  "stageIndex (currentStage (updateSessionState history s msg)) = stageIndex (currentStage s)
   \<or> stageIndex (currentStage (updateSessionState history s msg)) = stageIndex (currentStage s) + 1"
  using update_stage [of history s msg] getNextStage_index by auto

text \<open>
  A request leaves the state of a stored session as it is or replaces it by the
  updated state of a turn; a new session never takes the id of a stored one.
\<close>

lemma chat_state_cases:
  "sessionStates store sid = Some s \<Longrightarrow> newId \<notin> dom (sessionStates store) \<Longrightarrow>
   sessionStates (snd (chat newId store req reply)) sid = Some s
   \<or> (\<exists>h m. sessionStates (snd (chat newId store req reply)) sid = Some (updateSessionState h s m))"
  by (fastforce simp: chat_def openSession_def Let_def split: option.splits prod.splits if_splits)

lemma newSession_other:
  "newId \<notin> dom (sessionStates store) \<Longrightarrow> sessionStates store sid = Some s
   \<Longrightarrow> sessionStates (newSession newId store) sid = Some s"
  by (auto simp: newSession_def)

lemma chat_index:
  assumes "sessionStates store sid = Some s" "newId \<notin> dom (sessionStates store)"
  shows "\<exists>s'. sessionStates (snd (chat newId store req reply)) sid = Some s'
           \<and> (stageIndex (currentStage s') = stageIndex (currentStage s)
                \<or> stageIndex (currentStage s') = stageIndex (currentStage s) + 1)"
  using chat_state_cases [OF assms, of req reply] update_index by auto

lemma run_index:
  "run store store' \<Longrightarrow> sessionStates store sid = Some s
   \<Longrightarrow> \<exists>s'. sessionStates store' sid = Some s'
            \<and> stageIndex (currentStage s) \<le> stageIndex (currentStage s')"
proof (induction rule: run.induct)
  case (run_refl store)
  then show ?case by simp
next
  case (run_chat store store' newId req reply)
  then obtain s1 where s1: "sessionStates store' sid = Some s1"
    "stageIndex (currentStage s) \<le> stageIndex (currentStage s1)" by auto
  from chat_index [OF s1(1) run_chat.hyps(3), of req reply] s1(2)
  show ?case by auto
next
  case (run_new store store' newId)
  then obtain s1 where s1: "sessionStates store' sid = Some s1"
    "stageIndex (currentStage s) \<le> stageIndex (currentStage s1)" by auto
  from newSession_other [OF run_new.hyps(3) s1(1)] s1(2) show ?case by auto
qed

text \<open>
  C1. With the stages ranked by their position in \<open>MPT_STAGE_ORDER\<close>: the state update
  of a turn leaves the stage where it is or moves it to the immediate successor; so
  does a request to the chat route for every stored session; and over any sequence of
  requests the stage of a session never decreases.
\<close>

theorem stage_order_monotone:
  "(stageIndex (currentStage (updateSessionState history s msg)) = stageIndex (currentStage s)
    \<or> stageIndex (currentStage (updateSessionState history s msg)) = stageIndex (currentStage s) + 1)
   \<and> (sessionStates store sid = Some s0 \<longrightarrow> newId \<notin> dom (sessionStates store) \<longrightarrow>
        (\<exists>s'. sessionStates (snd (chat newId store req reply)) sid = Some s'
           \<and> (stageIndex (currentStage s') = stageIndex (currentStage s0)
                \<or> stageIndex (currentStage s') = stageIndex (currentStage s0) + 1)))
   \<and> (run store store' \<longrightarrow> sessionStates store sid = Some s0 \<longrightarrow>
        (\<exists>s'. sessionStates store' sid = Some s'
           \<and> stageIndex (currentStage s0) \<le> stageIndex (currentStage s')))"
  using update_index chat_index run_index by blast

theorem stage_order_monotone_witness:
  "sessionStates (newSession ''s1'' emptyStore) ''s1'' = Some createInitialSessionState
   \<and> ''s2'' \<notin> dom (sessionStates (newSession ''s1'' emptyStore))
   \<and> run (newSession ''s1'' emptyStore)
          (snd (chat ''s2'' (newSession ''s1'' emptyStore)
                  \<lparr>req_message = Str [55], req_sessionId = Str ''s1'', req_scenarioId = Absent\<rparr>
                  None))
   \<and> (\<exists>s'. sessionStates
              (snd (chat ''s2'' (newSession ''s1'' emptyStore)
                      \<lparr>req_message = Str [55], req_sessionId = Str ''s1'', req_scenarioId = Absent\<rparr>
                      None)) ''s1'' = Some s'
          \<and> (stageIndex (currentStage s') = stageIndex (currentStage createInitialSessionState)
               \<or> stageIndex (currentStage s') = stageIndex (currentStage createInitialSessionState) + 1)
          \<and> stageIndex (currentStage createInitialSessionState) \<le> stageIndex (currentStage s'))"
proof -
  let ?store = "newSession ''s1'' emptyStore"
  let ?req = "\<lparr>req_message = Str [55], req_sessionId = Str ''s1'', req_scenarioId = Absent\<rparr>"
  have stored: "sessionStates ?store ''s1'' = Some createInitialSessionState"
    by (simp add: newSession_def emptyStore_def)
  have fresh: "''s2'' \<notin> dom (sessionStates ?store)" "''s2'' \<notin> dom (sessions ?store)"
    by (simp_all add: newSession_def emptyStore_def)
  have steps: "run ?store (snd (chat ''s2'' ?store ?req None))"
    by (rule run_chat [OF run_refl fresh(2) fresh(1)])
  note inst = stage_order_monotone
         [where store = "?store" and sid = "''s1''" and ?s0.0 = createInitialSessionState
            and newId = "''s2''" and req = "?req" and reply = None
            and store' = "snd (chat ''s2'' ?store ?req None)"]
  from inst stored fresh(1) obtain s1 where s1:
    "sessionStates (snd (chat ''s2'' ?store ?req None)) ''s1'' = Some s1"
    "stageIndex (currentStage s1) = stageIndex (currentStage createInitialSessionState)
     \<or> stageIndex (currentStage s1) = stageIndex (currentStage createInitialSessionState) + 1"
    by blast
  from inst stored steps obtain s2 where s2:
    "sessionStates (snd (chat ''s2'' ?store ?req None)) ''s1'' = Some s2"
    "stageIndex (currentStage createInitialSessionState) \<le> stageIndex (currentStage s2)"
    by blast
  from s1(1) s2(1) have "s2 = s1" by simp
  with s1 s2(2) stored fresh(1) steps show ?thesis by blast
qed

section \<open>The transition evaluator\<close>

lemma ceiling_above_minimum:
  "stageCeiling stage = Some c \<Longrightarrow> minResponses (MPT_STAGE_CONFIG stage) \<le> c"
  by (cases stage) auto

lemma ceiling_has_next:
  "stageCeiling stage = Some c \<Longrightarrow> \<exists>next. getNextStage stage = Some next"
  by (cases stage) (auto simp: getNextStage_simps)

lemma ceiling_transition:
  "stageCeiling (currentStage state) = Some c \<Longrightarrow> c \<le> stageResponseCount state
   \<Longrightarrow> shouldTransitionToNextStage state"
  by (cases "currentStage state") (auto simp: shouldTransitionToNextStage_def)

lemma ceiling_update:
  assumes "stageCeiling (currentStage state) = Some c" "c \<le> stageResponseCount state + 1"
  shows "getNextStage (currentStage state) = Some (currentStage (updateSessionState history state msg))
         \<and> stageResponseCount (updateSessionState history state msg) = 0"
proof -
  obtain "next" where nx: "getNextStage (currentStage state) = Some next"
    using ceiling_has_next [OF assms(1)] by auto
  have "\<And>s3. currentStage s3 = currentStage state
              \<Longrightarrow> stageResponseCount s3 = stageResponseCount state + 1
              \<Longrightarrow> shouldTransitionToNextStage s3"
    using assms ceiling_transition by simp
  then show ?thesis using nx
    by (auto simp: updateSessionState_def Let_def transitionToNextStage_def split: option.splits)
qed

text \<open>
  C3. At a stage with a turn-count ceiling (the eight stages with a target fact, and
  \<open>integration\<close>) the evaluator answers true once the response count has reached the
  ceiling, whatever the target fact or the flag holds; and the turn whose response
  brings the count to the ceiling moves the session to the next stage with the counter
  reset, so the session cannot stay on such a stage.
\<close>

theorem ceiling_forces_transition:
  "stageCeiling (currentStage state) = Some c \<Longrightarrow>
     (c \<le> stageResponseCount state \<longrightarrow> shouldTransitionToNextStage state)
   \<and> (c \<le> stageResponseCount state + 1 \<longrightarrow>
        getNextStage (currentStage state)
          = Some (currentStage (updateSessionState history state msg))
        \<and> stageResponseCount (updateSessionState history state msg) = 0)"
  using ceiling_transition ceiling_update by blast

theorem ceiling_forces_transition_witness:
  "stageCeiling (currentStage (createInitialSessionState
                    \<lparr>currentStage := find_need, stageResponseCount := 4\<rparr>)) = Some 4
   \<and> deepNeed (ctx (createInitialSessionState
                    \<lparr>currentStage := find_need, stageResponseCount := 4\<rparr>)) = None
   \<and> shouldTransitionToNextStage
        (createInitialSessionState\<lparr>currentStage := find_need, stageResponseCount := 4\<rparr>)
   \<and> currentStage (updateSessionState []
         (createInitialSessionState\<lparr>currentStage := find_need, stageResponseCount := 4\<rparr>) [55])
       = bodywork"
  using ceiling_forces_transition
          [of "createInitialSessionState\<lparr>currentStage := find_need, stageResponseCount := 4\<rparr>" 4
              "[]" "[55]"]
  by (simp add: createInitialSessionState_def getNextStage_simps)

text \<open>
  C4, as the code has it. At \<open>finish\<close>, whose registry minimum is 1, the evaluator
  answers true exactly when the response count is at least 2: with the minimum met by
  a single response it still answers false, and one further response is needed.
\<close>

theorem finish_needs_two_responses:
  "currentStage state = finish \<Longrightarrow>
     minResponses (MPT_STAGE_CONFIG (currentStage state)) = 1
   \<and> shouldTransitionToNextStage state = (2 \<le> stageResponseCount state)"
  by (auto simp: shouldTransitionToNextStage_def)

theorem finish_needs_two_responses_witness:
  "currentStage (createInitialSessionState\<lparr>currentStage := finish, stageResponseCount := 2\<rparr>) = finish
   \<and> shouldTransitionToNextStage
        (createInitialSessionState\<lparr>currentStage := finish, stageResponseCount := 2\<rparr>)"
  using finish_needs_two_responses
          [of "createInitialSessionState\<lparr>currentStage := finish, stageResponseCount := 2\<rparr>"]
  by (simp add: createInitialSessionState_def)

text \<open>
  With one response at \<open>finish\<close> the registry minimum is met and the evaluator still
  answers false.
\<close>

theorem finish_minimum_counterexample:
  "currentStage (createInitialSessionState\<lparr>currentStage := finish, stageResponseCount := 1\<rparr>) = finish
   \<and> minResponses (MPT_STAGE_CONFIG finish)
       \<le> stageResponseCount
            (createInitialSessionState\<lparr>currentStage := finish, stageResponseCount := 1\<rparr>)
   \<and> \<not> shouldTransitionToNextStage
          (createInitialSessionState\<lparr>currentStage := finish, stageResponseCount := 1\<rparr>)"
  by (simp add: createInitialSessionState_def shouldTransitionToNextStage_def)



section \<open>Target facts that no operation assigns\<close>

lemma transition_ctx: "ctx (transitionToNextStage state) = ctx state"
  by (simp add: transitionToNextStage_def split: option.splits)

lemma update_targetFacts:
  "targetFactsNull s \<Longrightarrow> targetFactsNull (updateSessionState history s msg)"
  by (auto simp: targetFactsNull_def updateSessionState_def Let_def transition_ctx
           split: option.splits)

lemma initial_targetFacts: "targetFactsNull createInitialSessionState"
  by (simp add: targetFactsNull_def createInitialSessionState_def)

lemma new_targetFacts: "targetFactsNull (newSessionState msg)"
  by (simp add: targetFactsNull_def newSessionState_def createInitialSessionState_def)

lemma fallback_targetFacts:
  "targetFactsNull
     (createInitialSessionState
        \<lparr>ctx := (ctx createInitialSessionState)\<lparr>originalRequest := Some msg\<rparr>\<rparr>)"
  by (simp add: targetFactsNull_def createInitialSessionState_def)

lemma chat_targetFacts:
  assumes "\<forall>sid s. sessionStates store sid = Some s \<longrightarrow> targetFactsNull s"
  shows "\<forall>sid s. sessionStates (snd (chat newId store req reply)) sid = Some s \<longrightarrow> targetFactsNull s"
  using assms update_targetFacts new_targetFacts fallback_targetFacts
  by (auto simp: chat_def openSession_def Let_def split: option.splits prod.splits if_splits)

lemma run_targetFacts:
  "run store store' \<Longrightarrow> \<forall>sid s. sessionStates store sid = Some s \<longrightarrow> targetFactsNull s
   \<Longrightarrow> \<forall>sid s. sessionStates store' sid = Some s \<longrightarrow> targetFactsNull s"
proof (induction rule: run.induct)
  case (run_refl store)
  then show ?case by simp
next
  case (run_chat store store' newId req reply)
  then show ?case using chat_targetFacts by blast
next
  case (run_new store store' newId)
  then show ?case using initial_targetFacts by (auto simp: newSession_def split: if_splits)
qed

lemma targetFacts_ceiling_only:
  "targetFactsNull s \<Longrightarrow>
   currentStage s \<in> {clarify_request, explore_strategy, find_need, bodywork, metaphor,
                      meta_position, plan_actions}
   \<Longrightarrow> shouldTransitionToNextStage s
       = (\<exists>c. stageCeiling (currentStage s) = Some c \<and> c \<le> stageResponseCount s)"
  by (auto simp: targetFactsNull_def shouldTransitionToNextStage_def)

lemma getNextStage_differs: "getNextStage stage = Some next \<Longrightarrow> next \<noteq> stage"
  using getNextStage_index [of stage "next"] by auto

text \<open>
  A turn that changes the stage has decided on the state after the increment: same
  stage, response count one higher, target facts as before.
\<close>

lemma update_decision:
  "currentStage (updateSessionState history s msg) \<noteq> currentStage s
   \<Longrightarrow> \<exists>s3. shouldTransitionToNextStage s3 \<and> currentStage s3 = currentStage s
            \<and> stageResponseCount s3 = stageResponseCount s + 1
            \<and> (targetFactsNull s \<longrightarrow> targetFactsNull s3)"
  unfolding updateSessionState_def Let_def
  by (auto simp: targetFactsNull_def split: option.splits if_splits)

lemma update_advances_iff:
  assumes "targetFactsNull s"
    "currentStage s \<in> {clarify_request, explore_strategy, find_need, bodywork, metaphor,
                        meta_position, plan_actions}"
  shows "(currentStage (updateSessionState history s msg) \<noteq> currentStage s)
         = (\<exists>c. stageCeiling (currentStage s) = Some c \<and> c \<le> stageResponseCount s + 1)"
proof
  assume "currentStage (updateSessionState history s msg) \<noteq> currentStage s"
  from update_decision [OF this] obtain s3 where s3: "shouldTransitionToNextStage s3"
    "currentStage s3 = currentStage s" "stageResponseCount s3 = stageResponseCount s + 1"
    "targetFactsNull s3" using assms(1) by blast
  from targetFacts_ceiling_only [OF s3(4)] assms(2) s3(1,2,3)
  show "\<exists>c. stageCeiling (currentStage s) = Some c \<and> c \<le> stageResponseCount s + 1"
    by simp
next
  assume "\<exists>c. stageCeiling (currentStage s) = Some c \<and> c \<le> stageResponseCount s + 1"
  then obtain c where c: "stageCeiling (currentStage s) = Some c" "c \<le> stageResponseCount s + 1"
    by blast
  from ceiling_update [OF c, of history msg] getNextStage_differs
  show "currentStage (updateSessionState history s msg) \<noteq> currentStage s" by blast
qed

lemma chat_advance_ceiling:
  assumes "targetFactsNull s"
    "currentStage s \<in> {clarify_request, explore_strategy, find_need, bodywork, metaphor,
                        meta_position, plan_actions}"
    "sessionStates store sid = Some s" "newId \<notin> dom (sessionStates store)"
    "sessionStates (snd (chat newId store req reply)) sid = Some s'"
    "currentStage s' \<noteq> currentStage s"
  shows "\<exists>c. stageCeiling (currentStage s) = Some c \<and> c \<le> stageResponseCount s + 1"
proof -
  from chat_state_cases [OF assms(3,4), of req reply] assms(5,6)
  obtain h m where "s' = updateSessionState h s m" by auto
  with assms(6) update_advances_iff [OF assms(1,2), of h m] show ?thesis by simp
qed

text \<open>
  C10. In every state that the server holds at any time, starting from the empty
  store, the seven target facts \<open>clarifiedRequest\<close>, \<open>currentStrategy\<close>, \<open>deepNeed\<close>,
  \<open>bodyLocation\<close>, \<open>metaphor\<close>, \<open>metaPositionData.insight\<close> and \<open>firstStep\<close> are null:
  the initial state has them null and neither the turn update nor the transition
  action writes them. So at each of the seven stages that test one of them the
  evaluator answers true exactly when the response count has reached the ceiling; the
  state update of a turn, which decides on the count after its increment, leaves the
  stage exactly when that count has reached the ceiling; and a request to the chat
  route moves the session off the stage only then.
\<close>

theorem target_facts_stay_null:
  "run emptyStore store \<Longrightarrow> sessionStates store sid = Some s \<Longrightarrow>
     targetFactsNull s
   \<and> targetFactsNull (updateSessionState history s msg)
   \<and> targetFactsNull (transitionToNextStage s)
   \<and> (currentStage s \<in> {clarify_request, explore_strategy, find_need, bodywork, metaphor,
                          meta_position, plan_actions}
       \<longrightarrow> shouldTransitionToNextStage s
              = (\<exists>c. stageCeiling (currentStage s) = Some c \<and> c \<le> stageResponseCount s)
          \<and> (currentStage (updateSessionState history s msg) \<noteq> currentStage s)
              = (\<exists>c. stageCeiling (currentStage s) = Some c \<and> c \<le> stageResponseCount s + 1)
          \<and> (newId \<notin> dom (sessionStates store) \<longrightarrow>
               (\<forall>s'. sessionStates (snd (chat newId store req reply)) sid = Some s'
                      \<longrightarrow> currentStage s' \<noteq> currentStage s
                      \<longrightarrow> (\<exists>c. stageCeiling (currentStage s) = Some c
                                \<and> c \<le> stageResponseCount s + 1))))"
proof -
  assume r: "run emptyStore store" and st: "sessionStates store sid = Some s"
  have "\<forall>sid s. sessionStates emptyStore sid = Some s \<longrightarrow> targetFactsNull s"
    by (simp add: emptyStore_def)
  with run_targetFacts [OF r] st have n: "targetFactsNull s" by blast
  then have t: "targetFactsNull (transitionToNextStage s)"
    by (simp add: targetFactsNull_def transition_ctx)
  have u: "targetFactsNull (updateSessionState history s msg)"
    using n by (rule update_targetFacts)
  show ?thesis
  proof (cases "currentStage s \<in> {clarify_request, explore_strategy, find_need, bodywork,
                                    metaphor, meta_position, plan_actions}")
    case False
    with n t u show ?thesis by blast
  next
    case True
    note e = targetFacts_ceiling_only [OF n True]
    note a = update_advances_iff [OF n True, of history msg]
    have c: "newId \<notin> dom (sessionStates store) \<longrightarrow>
               (\<forall>s'. sessionStates (snd (chat newId store req reply)) sid = Some s'
                      \<longrightarrow> currentStage s' \<noteq> currentStage s
                      \<longrightarrow> (\<exists>c. stageCeiling (currentStage s) = Some c
                                \<and> c \<le> stageResponseCount s + 1))"
      using chat_advance_ceiling [OF n True st] by blast
    from n t u e a c show ?thesis by blast
  qed
qed

lemmas turn_eval = chat_def chatRequestSchema_def openSession_def updateSessionState_def Let_def
  newSessionState_def createInitialSessionState_def shouldTransitionToNextStage_def
  transitionToNextStage_def getNextStage_simps getNextStage_finish emptyStore_def
  seven_rating seven_name seven_idk seven_type sevenFirst_def sevenAgain_def

lemmas six_turns = afterSixTurns_def afterFiveTurns_def afterFourTurns_def afterThreeTurns_def
  afterTwoTurns_def afterOneTurn_def

theorem target_facts_stay_null_witness:
  "run emptyStore afterSixTurns
   \<and> (\<exists>s. sessionStates afterSixTurns ''s1'' = Some s
          \<and> currentStage s = clarify_request
          \<and> stageResponseCount s = 3
          \<and> targetFactsNull s
          \<and> \<not> shouldTransitionToNextStage s
          \<and> currentStage (updateSessionState [] s [55]) \<noteq> clarify_request)"
proof -
  have r1: "run emptyStore afterOneTurn"
    unfolding afterOneTurn_def by (rule run_chat [OF run_refl]) (simp_all add: emptyStore_def)
  have d1: "dom (sessions afterOneTurn) = {''s1''}" "dom (sessionStates afterOneTurn) = {''s1''}"
    by (simp_all add: six_turns turn_eval)
  have r2: "run emptyStore afterTwoTurns"
    unfolding afterTwoTurns_def by (rule run_chat [OF r1]) (simp_all add: d1)
  have d2: "dom (sessions afterTwoTurns) = {''s1''}" "dom (sessionStates afterTwoTurns) = {''s1''}"
    by (simp_all add: six_turns turn_eval)
  have r3: "run emptyStore afterThreeTurns"
    unfolding afterThreeTurns_def by (rule run_chat [OF r2]) (simp_all add: d2)
  have d3: "dom (sessions afterThreeTurns) = {''s1''}"
    "dom (sessionStates afterThreeTurns) = {''s1''}"
    by (simp_all add: six_turns turn_eval)
  have r4: "run emptyStore afterFourTurns"
    unfolding afterFourTurns_def by (rule run_chat [OF r3]) (simp_all add: d3)
  have d4: "dom (sessions afterFourTurns) = {''s1''}"
    "dom (sessionStates afterFourTurns) = {''s1''}"
    by (simp_all add: six_turns turn_eval)
  have r5: "run emptyStore afterFiveTurns"
    unfolding afterFiveTurns_def by (rule run_chat [OF r4]) (simp_all add: d4)
  have d5: "dom (sessions afterFiveTurns) = {''s1''}"
    "dom (sessionStates afterFiveTurns) = {''s1''}"
    by (simp_all add: six_turns turn_eval)
  have r6: "run emptyStore afterSixTurns"
    unfolding afterSixTurns_def by (rule run_chat [OF r5]) (simp_all add: d5)
  have "\<exists>s. sessionStates afterSixTurns ''s1'' = Some s
           \<and> currentStage s = clarify_request \<and> stageResponseCount s = 3"
    by (simp add: six_turns turn_eval)
  then obtain s where s: "sessionStates afterSixTurns ''s1'' = Some s"
    "currentStage s = clarify_request" "stageResponseCount s = 3" by blast
  from target_facts_stay_null [OF r6 s(1), of "[]" "[55]"] s r6 show ?thesis by auto
qed

section \<open>The client name\<close>

lemma extractClientName_append:
  "extractClientName (xs @ ys) =
     (case extractClientName xs of Some n \<Rightarrow> Some n | None \<Rightarrow> extractClientName ys)"
  by (induction xs) (auto split: option.splits)

lemma update_clientName:
  "clientName (ctx (updateSessionState history s msg)) =
     (case extractClientName history of
        None \<Rightarrow> clientName (ctx s)
      | Some n \<Rightarrow> if n \<noteq> [] then Some n else clientName (ctx s))"
  by (auto simp: updateSessionState_def Let_def transition_ctx split: option.splits)

lemma update_keeps_name:
  assumes "nameKept history s" "clientName (ctx s) = Some n"
  shows "clientName (ctx (updateSessionState (history @ extra) s msg)) = Some n"
  using assms by (auto simp: nameKept_def update_clientName extractClientName_append)

lemma update_nameKept:
  assumes "nameKept history s"
  shows "nameKept (history @ extra @ rest) (updateSessionState (history @ extra) s msg)"
  using assms
  by (auto simp: nameKept_def update_clientName extractClientName_append split: option.splits if_splits)

lemma update_nameKept_user:
  "nameKept history s \<Longrightarrow> nameKept (history @ [u]) (updateSessionState (history @ [u]) s msg)"
  using update_nameKept [of history s "[u]" "[]" msg] by simp

lemma update_nameKept_reply:
  "nameKept history s \<Longrightarrow> nameKept (history @ [u, a]) (updateSessionState (history @ [u]) s msg)"
  using update_nameKept [of history s "[u]" "[a]" msg] by simp

lemma nameKept_fresh:
  "nameKept history (newSessionState msg)"
  "nameKept history (createInitialSessionState
        \<lparr>ctx := (ctx createInitialSessionState)\<lparr>originalRequest := Some msg\<rparr>\<rparr>)"
  "nameKept history createInitialSessionState"
  by (simp_all add: nameKept_def newSessionState_def createInitialSessionState_def)

lemma chat_namesKept:
  assumes "storeNamesKept store"
  shows "storeNamesKept (snd (chat newId store req reply))"
  unfolding storeNamesKept_def
proof (intro allI impI)
  fix sid s
  assume st: "sessionStates (snd (chat newId store req reply)) sid = Some s"
  show "\<exists>session. sessions (snd (chat newId store req reply)) sid = Some session
          \<and> nameKept (messages session) s"
  proof (cases "chatRequestSchema req")
    case None
    with st assms show ?thesis by (auto simp: chat_def storeNamesKept_def)
  next
    case parsed: (Some data)
    obtain msg sessionId scenarioId where data: "data = (msg, sessionId, scenarioId)"
      by (cases data)
    from parsed data have Some: "chatRequestSchema req = Some (msg, sessionId, scenarioId)"
      by simp
    show ?thesis
    proof (cases "case sessionId of None \<Rightarrow> None
                  | Some sid \<Rightarrow> if sid \<noteq> [] then map_option (Pair sid) (sessions store sid) else None")
      case None
      with Some st assms show ?thesis
        using update_nameKept_user [OF nameKept_fresh(1), of "[]"]
              update_nameKept_reply [OF nameKept_fresh(1), of "[]"]
        by (auto simp: chat_def openSession_def Let_def storeNamesKept_def
                 split: option.splits if_splits)
    next
      case found: (Some p)
      obtain sid0 session0 where p: "p = (sid0, session0)" by (cases p)
      from found p have s0: "sessions store sid0 = Some session0"
        by (auto split: option.splits if_splits)
      have k: "nameKept (messages session0)
                 (case sessionStates store sid0 of Some s \<Rightarrow> s
                  | None \<Rightarrow> createInitialSessionState
                       \<lparr>ctx := (ctx createInitialSessionState)\<lparr>originalRequest := Some msg\<rparr>\<rparr>)"
      proof (cases "sessionStates store sid0")
        case None
        then show ?thesis using nameKept_fresh(2) by simp
      next
        case (Some s1)
        with assms s0 show ?thesis by (fastforce simp: storeNamesKept_def)
      qed
      from Some found p st assms show ?thesis
        using update_nameKept_user [OF k] update_nameKept_reply [OF k]
        by (auto simp: chat_def openSession_def Let_def storeNamesKept_def
                 split: option.splits if_splits)
    qed
  qed
qed

lemma chat_keeps_name:
  assumes inv: "storeNamesKept store"
    and st: "sessionStates store sid = Some s" and nm: "clientName (ctx s) = Some n"
    and fresh: "newId \<notin> dom (sessionStates store)"
  shows "\<exists>s'. sessionStates (snd (chat newId store req reply)) sid = Some s'
           \<and> clientName (ctx s') = Some n"
proof -
  from inv st obtain session where se: "sessions store sid = Some session"
    and k: "nameKept (messages session) s" by (auto simp: storeNamesKept_def)
  from fresh st have ne: "newId \<noteq> sid" by auto
  have upd: "\<And>u msg. clientName (ctx (updateSessionState (messages session @ [u]) s msg)) = Some n"
    using update_keeps_name [OF k nm] by simp
  show ?thesis using st nm se ne upd
    by (auto simp: chat_def openSession_def Let_def split: option.splits if_splits)
qed

lemma newSession_namesKept:
  "storeNamesKept store \<Longrightarrow> storeNamesKept (newSession newId store)"
  using nameKept_fresh(3) by (auto simp: storeNamesKept_def newSession_def)

lemma run_namesKept: "run store store' \<Longrightarrow> storeNamesKept store \<Longrightarrow> storeNamesKept store'"
  by (induction rule: run.induct) (auto intro: chat_namesKept newSession_namesKept)

lemma run_keeps_name:
  "run store store' \<Longrightarrow> storeNamesKept store \<Longrightarrow> sessionStates store sid = Some s
   \<Longrightarrow> clientName (ctx s) = Some n
   \<Longrightarrow> \<exists>s'. sessionStates store' sid = Some s' \<and> clientName (ctx s') = Some n"
proof (induction rule: run.induct)
  case (run_refl store)
  then show ?case by simp
next
  case (run_chat store store' newId req reply)
  then obtain s1 where s1: "sessionStates store' sid = Some s1" "clientName (ctx s1) = Some n"
    by auto
  from run_chat.hyps(1) run_chat.prems(1) have "storeNamesKept store'" by (rule run_namesKept)
  from chat_keeps_name [OF this s1 run_chat.hyps(3)] show ?case .
next
  case (run_new store store' newId)
  then obtain s1 where s1: "sessionStates store' sid = Some s1" "clientName (ctx s1) = Some n"
    by auto
  from newSession_other [OF run_new.hyps(3) s1(1)] s1(2) show ?case by auto
qed

lemma empty_namesKept: "storeNamesKept emptyStore"
  by (simp add: storeNamesKept_def emptyStore_def)

text \<open>
  C6. In any history of the server that starts with no sessions: once a session's
  state holds a client name, the state of that session holds the same name after every
  later sequence of requests (to this or to other sessions), and the name extractor run
  over the extended message list of the session still returns that name.
\<close>

theorem client_name_write_once:
  "run emptyStore store \<Longrightarrow> sessionStates store sid = Some s \<Longrightarrow> clientName (ctx s) = Some n
   \<Longrightarrow> run store store'
   \<Longrightarrow> \<exists>s' session'. sessionStates store' sid = Some s' \<and> clientName (ctx s') = Some n
         \<and> sessions store' sid = Some session' \<and> extractClientName (messages session') = Some n"
proof -
  assume r0: "run emptyStore store" and st: "sessionStates store sid = Some s"
    and nm: "clientName (ctx s) = Some n" and r1: "run store store'"
  have inv: "storeNamesKept store" using run_namesKept [OF r0 empty_namesKept] .
  from run_keeps_name [OF r1 inv st nm] obtain s' where
    s': "sessionStates store' sid = Some s'" "clientName (ctx s') = Some n" by auto
  have "storeNamesKept store'" using run_namesKept [OF r1 inv] .
  with s' show ?thesis by (fastforce simp: storeNamesKept_def nameKept_def)
qed

theorem client_name_write_once_witness:
  "run emptyStore
     (snd (chat ''s1'' emptyStore
             \<lparr>req_message = Str annaMsg, req_sessionId = Absent, req_scenarioId = Absent\<rparr> (Some [55])))
   \<and> (\<exists>s. sessionStates
              (snd (chat ''s1'' emptyStore
                 \<lparr>req_message = Str annaMsg, req_sessionId = Absent, req_scenarioId = Absent\<rparr> (Some [55])))
              ''s1'' = Some s
          \<and> clientName (ctx s) = Some [1040, 1085, 1085, 1072])
   \<and> nameFromPatterns namePatterns pyotrMsg = Some [1055, 1105, 1090, 1088]
   \<and> (\<exists>s'. sessionStates
              (snd (chat ''s2''
                 (snd (chat ''s1'' emptyStore
                    \<lparr>req_message = Str annaMsg, req_sessionId = Absent, req_scenarioId = Absent\<rparr>
                    (Some [55])))
                 \<lparr>req_message = Str pyotrMsg, req_sessionId = Str ''s1'', req_scenarioId = Absent\<rparr>
                 None))
              ''s1'' = Some s'
          \<and> clientName (ctx s') = Some [1040, 1085, 1085, 1072])"
proof -
  let ?r1 = "\<lparr>req_message = Str annaMsg, req_sessionId = Absent, req_scenarioId = Absent\<rparr>"
  let ?r2 = "\<lparr>req_message = Str pyotrMsg, req_sessionId = Str ''s1'', req_scenarioId = Absent\<rparr>"
  let ?S1 = "snd (chat ''s1'' emptyStore ?r1 (Some [55]))"
  let ?S2 = "snd (chat ''s2'' ?S1 ?r2 None)"
  have run1: "run emptyStore ?S1"
    by (rule run_chat [OF run_refl]) (simp_all add: emptyStore_def)
  have len: "1 \<le> length annaMsg" by (simp add: annaMsg_def)
  have st1: "\<exists>s. sessionStates ?S1 ''s1'' = Some s \<and> clientName (ctx s) = Some [1040, 1085, 1085, 1072]"
    using len
    by (simp add: chat_def chatRequestSchema_def openSession_def emptyStore_def Let_def
          update_clientName anna_name)
  have dom1: "dom (sessionStates ?S1) = {''s1''}" "dom (sessions ?S1) = {''s1''}"
    using len
    by (simp_all add: chat_def chatRequestSchema_def openSession_def emptyStore_def Let_def)
  have run2: "run ?S1 ?S2"
    by (rule run_chat [OF run_refl]) (simp_all add: dom1)
  from st1 obtain s where s: "sessionStates ?S1 ''s1'' = Some s"
    "clientName (ctx s) = Some [1040, 1085, 1085, 1072]" by blast
  from client_name_write_once [OF run1 s run2] run1 st1 pyotr_name show ?thesis by blast
qed

section \<open>The importance rating\<close>

lemma ratingOf_range: "ratingOf message pattern = Some n \<Longrightarrow> 1 \<le> n \<and> n \<le> 10"
  by (auto simp: ratingOf_def split: option.splits if_splits)

lemma ratingFromPatterns_find:
  "ratingFromPatterns patterns message =
     (case List.find (\<lambda>pattern. ratingOf message pattern \<noteq> None) patterns of
        None \<Rightarrow> None
      | Some pattern \<Rightarrow> ratingOf message pattern)"
  by (induction patterns) (auto simp: ratingOf_def split: option.splits)

text \<open>
  C7, as the code has it. \<open>extractImportanceRating\<close> returns null or an integer from 1
  to 10. The four patterns are tried in their fixed order, and the result is the
  number of the first pattern that matches with a captured number from 1 to 10: a
  pattern that matches with a number outside that range does not end the search, the
  later patterns are still tried.
\<close>

theorem importance_rating_first_in_range:
  "extractImportanceRating message =
     (case List.find (\<lambda>pattern. ratingOf message pattern \<noteq> None) ratingPatterns of
        None \<Rightarrow> None
      | Some pattern \<Rightarrow> ratingOf message pattern)
   \<and> (\<forall>n. extractImportanceRating message = Some n \<longrightarrow> 1 \<le> n \<and> n \<le> 10)"
proof -
  have eq: "extractImportanceRating message =
     (case List.find (\<lambda>pattern. ratingOf message pattern \<noteq> None) ratingPatterns of
        None \<Rightarrow> None
      | Some pattern \<Rightarrow> ratingOf message pattern)"
    by (simp add: extractImportanceRating_def ratingFromPatterns_find)
  have "\<And>n. extractImportanceRating message = Some n \<Longrightarrow> 1 \<le> n \<and> n \<le> 10"
    unfolding eq using ratingOf_range by (auto split: option.splits)
  with eq show ?thesis by blast
qed

theorem importance_rating_first_in_range_witness:
  "extractImportanceRating twoRatingsMsg = Some 5 \<and> (1::int) \<le> 5 \<and> (5::int) \<le> 10"
  using importance_rating_first_in_range [of twoRatingsMsg] two_ratings_result by simp

text \<open>
  On \<open>20 iz 10, na 5\<close> the first pattern matches and captures 20, so under the literal
  reading the result would be null; the loop goes on and returns the 5 of the second
  pattern.
\<close>

theorem first_match_wins_counterexample:
  "str_match twoRatingsMsg (hd ratingPatterns) = Some [(2, [1080, 1079]), (1, [50, 48])]
   \<and> parseInt [50, 48] = Some 20
   \<and> firstMatchWins twoRatingsMsg = None
   \<and> extractImportanceRating twoRatingsMsg = Some 5"
proof -
  have p: "parseInt [50, 48] = Some 20" by (simp add: parseInt_def)
  have "ratingOf twoRatingsMsg (hd ratingPatterns) = None"
    by (simp add: ratingOf_def two_ratings_first p)
  moreover have "List.find (\<lambda>pattern. str_match twoRatingsMsg pattern \<noteq> None) ratingPatterns
                   = Some (hd ratingPatterns)"
    using two_ratings_first by (simp add: ratingPatterns_def)
  ultimately have "firstMatchWins twoRatingsMsg = None" by (simp add: firstMatchWins_def)
  with p two_ratings_first two_ratings_result show ?thesis by simp
qed

section \<open>Request validation and the first turn\<close>

lemma length_ge_1: "(Suc 0 \<le> length (xs :: 'a list)) = (xs \<noteq> [])"
  by (cases xs) auto

lemma schema_message:
  "chatRequestSchema req = Some (msg, sessionId, scenarioId) \<Longrightarrow> req_message req = Str msg \<and> msg \<noteq> []"
  by (auto simp: chatRequestSchema_def length_ge_1 split: field.splits option.splits if_splits)

lemma schema_no_message:
  "req_message req = Str [] \<or> req_message req = Absent \<or> req_message req = NotString
   \<Longrightarrow> chatRequestSchema req = None"
  by (auto simp: chatRequestSchema_def)

lemma schema_well_typed:
  "msg \<noteq> [] \<Longrightarrow>
   chatRequestSchema \<lparr>req_message = Str msg, req_sessionId = Absent, req_scenarioId = Absent\<rparr>
     = Some (msg, None, None)"
  by (simp add: chatRequestSchema_def length_ge_1)

lemma chat_rejects:
  "chatRequestSchema req = None \<Longrightarrow> chat newId store req reply = (InvalidRequest, store)"
  by (simp add: chat_def)

lemma transition_lastClientResponse:
  "lastClientResponse (transitionToNextStage state) = lastClientResponse state"
  by (simp add: transitionToNextStage_def split: option.splits)

lemma update_lastClientResponse: "lastClientResponse (updateSessionState history s msg) = msg"
  by (auto simp: updateSessionState_def Let_def transition_lastClientResponse split: option.splits)

text \<open>
  A request that passes the schema is processed: some session then records the
  utterance as the last client response.
\<close>

lemma chat_accepts:
  assumes "chatRequestSchema req = Some (msg, sessionId, scenarioId)"
  shows "\<exists>sid s. (fst (chat newId store req reply) = Completed sid
                  \<or> fst (chat newId store req reply) = GenerationFailed sid)
           \<and> sessionStates (snd (chat newId store req reply)) sid = Some s
           \<and> lastClientResponse s = msg"
  using assms
  by (auto simp: chat_def openSession_def Let_def update_lastClientResponse
           split: option.splits prod.splits if_splits)

lemma chat_new_session:
  assumes "chatRequestSchema req = Some (msg, sessionId, scenarioId)"
    "opensNewSession store sessionId"
  shows "chat newId store req reply
         = ((case reply of None \<Rightarrow> GenerationFailed newId | Some text \<Rightarrow> Completed newId),
            store\<lparr>sessions := (sessions store)
                     (newId \<mapsto> \<lparr>messages = (case reply of None \<Rightarrow> [\<lparr>role = User, content = msg\<rparr>]
                          | Some text \<Rightarrow> [\<lparr>role = User, content = msg\<rparr>, \<lparr>role = Assistant, content = text\<rparr>])\<rparr>),
                  sessionStates := (sessionStates store)
                     (newId \<mapsto> updateSessionState [\<lparr>role = User, content = msg\<rparr>] (newSessionState msg) msg)\<rparr>)"
  using assms
  by (auto simp: chat_def opensNewSession_def openSession_def Let_def split: option.splits)

lemma first_turn_state:
  "currentStage (updateSessionState history (newSessionState msg) msg) = collect_context
   \<and> stageResponseCount (updateSessionState history (newSessionState msg) msg) = 0
   \<and> stageHistory (updateSessionState history (newSessionState msg) msg) = [start_session]
   \<and> requestType (updateSessionState history (newSessionState msg) msg) = Some (detectRequestType msg)"
  by (auto simp: updateSessionState_def Let_def newSessionState_def createInitialSessionState_def
        shouldTransitionToNextStage_def transitionToNextStage_def getNextStage_simps
        split: option.splits)

text \<open>
  C8. A request whose utterance is empty (or missing, or not a string) is answered
  with an input error, 400 "Invalid request" from the handler or 413 from the body
  parser; a request whose utterance has more code units than the body limit has bytes
  needs a body over the limit (the body holds the utterance at one byte or more for
  each code unit) and is answered 413 before the handler runs. In both cases the store,
  and with it every session state, is left as it was.
\<close>

theorem malformed_utterance_rejected:
  "((req_message req = Str [] \<or> req_message req = Absent \<or> req_message req = NotString)
      \<longrightarrow> (fst (postChat bytes newId store req reply) = Handled InvalidRequest
            \<or> fst (postChat bytes newId store req reply) = PayloadTooLarge)
          \<and> snd (postChat bytes newId store req reply) = store)
   \<and> (req_message req = Str msg \<and> bodyLimit < length msg \<and> length msg \<le> bytes
      \<longrightarrow> fst (postChat bytes newId store req reply) = PayloadTooLarge
          \<and> snd (postChat bytes newId store req reply) = store)"
  using chat_rejects [OF schema_no_message, of req newId store reply]
  by (auto simp: postChat_def)

theorem malformed_utterance_rejected_witness:
  "fst (postChat 10 ''s1'' emptyStore
          \<lparr>req_message = Str [], req_sessionId = Absent, req_scenarioId = Absent\<rparr> None)
     = Handled InvalidRequest
   \<and> snd (postChat 10 ''s1'' emptyStore
          \<lparr>req_message = Str [], req_sessionId = Absent, req_scenarioId = Absent\<rparr> None)
     = emptyStore
   \<and> bodyLimit < length hugeMsg \<and> length hugeMsg \<le> bodyLimit + 100
   \<and> fst (postChat (bodyLimit + 100) ''s1'' emptyStore
          \<lparr>req_message = Str hugeMsg, req_sessionId = Absent, req_scenarioId = Absent\<rparr> None)
     = PayloadTooLarge
   \<and> snd (postChat (bodyLimit + 100) ''s1'' emptyStore
          \<lparr>req_message = Str hugeMsg, req_sessionId = Absent, req_scenarioId = Absent\<rparr> None)
     = emptyStore"
proof -
  have small: "\<not> (10::nat) > bodyLimit" by (simp add: bodyLimit_def)
  have len: "bodyLimit < length hugeMsg" "length hugeMsg \<le> bodyLimit + 100"
    by (simp_all add: hugeMsg_def)
  from malformed_utterance_rejected
         [of "\<lparr>req_message = Str [], req_sessionId = Absent, req_scenarioId = Absent\<rparr>"
             10 "''s1''" emptyStore None "[]"]
       small
  have a: "fst (postChat 10 ''s1'' emptyStore
              \<lparr>req_message = Str [], req_sessionId = Absent, req_scenarioId = Absent\<rparr> None)
            = Handled InvalidRequest
          \<and> snd (postChat 10 ''s1'' emptyStore
              \<lparr>req_message = Str [], req_sessionId = Absent, req_scenarioId = Absent\<rparr> None)
            = emptyStore"
    by (auto simp: postChat_def split: prod.splits)
  from malformed_utterance_rejected
         [of "\<lparr>req_message = Str hugeMsg, req_sessionId = Absent, req_scenarioId = Absent\<rparr>"
             "bodyLimit + 100" "''s1''" emptyStore None hugeMsg]
       len
  have b: "fst (postChat (bodyLimit + 100) ''s1'' emptyStore
              \<lparr>req_message = Str hugeMsg, req_sessionId = Absent, req_scenarioId = Absent\<rparr> None)
            = PayloadTooLarge
          \<and> snd (postChat (bodyLimit + 100) ''s1'' emptyStore
              \<lparr>req_message = Str hugeMsg, req_sessionId = Absent, req_scenarioId = Absent\<rparr> None)
            = emptyStore"
    by simp
  from a b len show ?thesis by blast
qed

text \<open>
  C9, as the code has it, for a first turn that opens its session itself (a chat
  request whose session id is absent, empty or unknown to the server). The turn pins
  the category that \<open>detectRequestType\<close> gives its utterance; it makes the response count
  1, which meets the minimum of \<open>start_session\<close> with the request recorded, so the same
  turn moves the session to \<open>collect_context\<close> and resets the count to 0. The keyword
  tables are Russian: the English utterance of the scenario has no keyword and gets the
  fallback category \<open>general\<close>, while \<open>ya vsyo vremya otkladyvayu diplom\<close> gets
  \<open>procrastination\<close>.
\<close>

theorem first_turn_of_new_session:
  "(chatRequestSchema req = Some (msg, sessionId, scenarioId) \<and> opensNewSession store sessionId
      \<longrightarrow> (\<exists>s. sessionStates (snd (chat newId store req reply)) newId = Some s
              \<and> requestType s = Some (detectRequestType msg)
              \<and> currentStage s = collect_context
              \<and> stageResponseCount s = 0
              \<and> stageHistory s = [start_session]))
   \<and> detectRequestType thesisMsg = general
   \<and> detectRequestType otkladyvayuMsg = procrastination"
  using first_turn_state thesis_type otkladyvayu_type
  by (auto simp: chat_new_session)

theorem first_turn_of_new_session_witness:
  "chatRequestSchema \<lparr>req_message = Str thesisMsg, req_sessionId = Absent, req_scenarioId = Absent\<rparr>
     = Some (thesisMsg, None, None)
   \<and> opensNewSession emptyStore None
   \<and> (\<exists>s. sessionStates
              (snd (chat ''s1'' emptyStore
                      \<lparr>req_message = Str thesisMsg, req_sessionId = Absent, req_scenarioId = Absent\<rparr>
                      None))
              ''s1'' = Some s
          \<and> requestType s = Some general
          \<and> currentStage s = collect_context
          \<and> stageResponseCount s = 0)"
proof -
  have ne: "thesisMsg \<noteq> []" by (simp add: thesisMsg_def)
  have parsed: "chatRequestSchema
                  \<lparr>req_message = Str thesisMsg, req_sessionId = Absent, req_scenarioId = Absent\<rparr>
                = Some (thesisMsg, None, None)"
    using ne by (rule schema_well_typed)
  have new: "opensNewSession emptyStore None" by (simp add: opensNewSession_def)
  from first_turn_of_new_session
         [of "\<lparr>req_message = Str thesisMsg, req_sessionId = Absent, req_scenarioId = Absent\<rparr>"
             thesisMsg None None emptyStore "''s1''" None]
       parsed new
  show ?thesis by (auto simp: thesis_type)
qed

text \<open>
  The scenario itself, the first turn opening the session: after the turn the category
  is \<open>general\<close>, the stage is \<open>collect_context\<close> and the response count is 0.
\<close>

theorem thesis_scenario_counterexample:
  "map_option requestType
     (sessionStates
        (snd (chat ''s1'' emptyStore
                \<lparr>req_message = Str thesisMsg, req_sessionId = Absent, req_scenarioId = Absent\<rparr> None))
        ''s1'') = Some (Some general)
   \<and> map_option currentStage
        (sessionStates
           (snd (chat ''s1'' emptyStore
                   \<lparr>req_message = Str thesisMsg, req_sessionId = Absent, req_scenarioId = Absent\<rparr> None))
           ''s1'') = Some collect_context
   \<and> map_option stageResponseCount
        (sessionStates
           (snd (chat ''s1'' emptyStore
                   \<lparr>req_message = Str thesisMsg, req_sessionId = Absent, req_scenarioId = Absent\<rparr> None))
           ''s1'') = Some 0"
proof -
  have ne: "thesisMsg \<noteq> []" by (simp add: thesisMsg_def)
  have new: "opensNewSession emptyStore None" by (simp add: opensNewSession_def)
  show ?thesis
    by (simp add: chat_new_session [OF schema_well_typed [OF ne] new] first_turn_state thesis_type)
qed

end
